theory Spec2Isabelle
  imports Complex_Main
begin

section \<open>Data model\<close>

text \<open>
  A shallow embedding of the vector index manager (\<^verbatim>\<open>faiss_manager.py\<close>, class
  \<^verbatim>\<open>IndexFAISS\<close>), of the background synchroniser (\<^verbatim>\<open>auto_sync.py\<close>, class
  \<^verbatim>\<open>FAISSAutoSync\<close>) and of the confidence normalisation of the request pipeline
  (\<^verbatim>\<open>llm_server.py\<close>, \<^verbatim>\<open>rechercher_et_generer\<close>).

  Floats are read as reals, Python integers as \<open>int\<close>, a \<^verbatim>\<open>datetime\<close> as a number of
  seconds. A path is the list of its components, so that \<^verbatim>\<open>Path(p).parent\<close> is
  \<open>butlast\<close>. Every method that mutates \<^verbatim>\<open>self\<close> returns the new object next to its
  result, also when it raises: an exception of Python does not undo the assignments made
  before it.
\<close>

type_synonym path = "string list"
type_synonym datetime = real
type_synonym vecteur = "real list"

text \<open>A two-dimensional \<^verbatim>\<open>numpy\<close> array: \<^verbatim>\<open>shape[1]\<close> and the rows; \<^verbatim>\<open>len\<close> counts the rows.\<close>

record ndarray =
  shape1 :: nat
  lignes :: "vecteur list"

text \<open>
  The backing structure \<^verbatim>\<open>faiss.IndexFlatIP\<close>: its dimension \<^verbatim>\<open>d\<close> and the stored vectors
  in insertion order; \<^verbatim>\<open>ntotal\<close> is their number.
\<close>

record faiss_index =
  d :: nat
  xb :: "vecteur list"

definition faiss_ntotal :: "faiss_index \<Rightarrow> nat" where
  "faiss_ntotal ix = length (xb ix)"

text \<open>
  The exceptions of the two modules. The three wrappers re-raise a cause under a new
  message (\<^verbatim>\<open>raise Exception(f"Erreur ...: {e}")\<close>); \<open>Erreur_externe\<close> is whatever a
  collaborator raises (the MySQL connector, the encoder, the operating system), named by
  its message.
\<close>

datatype erreur =
    ValueError_index_non_charge
  | ValueError_nombre_ids nat nat
  | ValueError_dimension nat nat
  | AssertionError_faiss
  | Erreur_externe string
  | Erreur_recherche erreur
  | Erreur_ajout erreur
  | Erreur_rebuild erreur

text \<open>
  What a file holds: a serialised backing structure, a JSON array of integers (the only
  document \<^verbatim>\<open>sauvegarder\<close> writes), or content that \<^verbatim>\<open>faiss.read_index\<close> rejects and on
  which \<^verbatim>\<open>json.load\<close> or the \<^verbatim>\<open>len\<close> of the line after it raises (a truncated write, a
  JSON scalar).
\<close>

datatype fichier =
    Fichier_index faiss_index
  | Fichier_mapping "int list"
  | Fichier_illisible

type_synonym disque = "path \<Rightarrow> fichier option"

text \<open>The module constants, read from the environment when the module is imported.\<close>

record config =
  FAISS_INDEX_PATH :: path
  FAISS_TOP_K :: int
  EMBEDDINGS_DIMENSION :: nat
  AUTO_SYNC_MYSQL_UPTIME_THRESHOLD :: int

text \<open>The attributes of an \<^verbatim>\<open>IndexFAISS\<close> object.\<close>

record index_faiss =
  chemin_index :: path
  dimension :: nat
  index :: "faiss_index option"
  id_mapping :: "int list"

section \<open>The library calls\<close>

text \<open>
  \<^verbatim>\<open>faiss.normalize_L2\<close> scales every row of non-zero norm to norm one and leaves a zero
  row as it is.
\<close>

definition norme2 :: "vecteur \<Rightarrow> real" where
  "norme2 v = sum_list (map (\<lambda>x. x * x) v)"

definition normalize_L2 :: "vecteur \<Rightarrow> vecteur" where
  "normalize_L2 v = (if 0 < norme2 v then map (\<lambda>x. x / sqrt (norme2 v)) v else v)"

definition normalize_L2_lignes :: "ndarray \<Rightarrow> ndarray" where
  "normalize_L2_lignes m = m\<lparr>lignes := map normalize_L2 (lignes m)\<rparr>"

text \<open>\<^verbatim>\<open>faiss.IndexFlatIP(d)\<close>: an empty structure of dimension \<open>d\<close>.\<close>

definition IndexFlatIP :: "nat \<Rightarrow> faiss_index" where
  "IndexFlatIP n = \<lparr>d = n, xb = []\<rparr>"

text \<open>
  \<^verbatim>\<open>index.add(x)\<close>: the Python wrapper asserts \<^verbatim>\<open>x.shape[1] == self.d\<close> and then appends
  the rows.
\<close>

definition faiss_add :: "faiss_index \<Rightarrow> ndarray \<Rightarrow> erreur + faiss_index" where
  "faiss_add ix m =
     (if shape1 m \<noteq> d ix then Inl AssertionError_faiss
      else Inr (ix\<lparr>xb := xb ix @ lignes m\<rparr>))"

definition produit_scalaire :: "vecteur \<Rightarrow> vecteur \<Rightarrow> real" where
  "produit_scalaire u v = sum_list (map (\<lambda>(a, b). a * b) (zip u v))"

text \<open>
  \<^verbatim>\<open>index.search(x, k)\<close> for one query row: the wrapper asserts the dimension and
  \<^verbatim>\<open>k > 0\<close>. The library keeps the \<open>k\<close> best candidates in a heap that starts with
  \<open>k\<close> entries of score \<open>-FLT_MAX\<close> and position \<open>-1\<close>; the vectors are visited in
  insertion order, and one whose inner product is strictly above the least score kept
  replaces the least entry, entries being compared by score and then by position. The
  result lists the entries from the greatest down, so that of two equal scores the later
  position comes first, and the unused entries come last. The heap is written here as
  the list of its entries from the least up.
\<close>

definition FLT_MAX :: real where
  "FLT_MAX = 340282346638528859811704183484516925440"

definition cmp2 :: "real \<times> int \<Rightarrow> real \<times> int \<Rightarrow> bool" where
  "cmp2 a b \<longleftrightarrow> fst a < fst b \<or> (fst a = fst b \<and> snd a < snd b)"

fun inserer_tas :: "real \<times> int \<Rightarrow> (real \<times> int) list \<Rightarrow> (real \<times> int) list" where
  "inserer_tas x [] = [x]"
| "inserer_tas x (y # ys) = (if cmp2 x y then x # y # ys else y # inserer_tas x ys)"

definition add_result :: "real \<times> int \<Rightarrow> (real \<times> int) list \<Rightarrow> (real \<times> int) list" where
  "add_result c tas =
     (case tas of
        [] \<Rightarrow> []
      | m # reste \<Rightarrow> if fst m < fst c then inserer_tas c reste else tas)"

definition faiss_search :: "faiss_index \<Rightarrow> vecteur \<Rightarrow> int \<Rightarrow> erreur + (real list \<times> int list)" where
  "faiss_search ix q k =
     (if length q \<noteq> d ix \<or> k \<le> 0 then Inl AssertionError_faiss
      else
        let scores = map (produit_scalaire q) (xb ix);
            candidats = zip scores (map int [0 ..< length scores]);
            tas = foldl (\<lambda>t c. add_result c t) (replicate (nat k) (- FLT_MAX, - 1)) candidats;
            resultat = rev tas
        in Inr (map fst resultat, map snd resultat))"

text \<open>\<^verbatim>\<open>faiss.read_index\<close> and \<^verbatim>\<open>json.load\<close> on the content of a file that exists.\<close>

definition read_index :: "fichier \<Rightarrow> erreur + faiss_index" where
  "read_index f =
     (case f of Fichier_index ix \<Rightarrow> Inr ix
      | _ \<Rightarrow> Inl (Erreur_externe ''read_index''))"

definition json_load :: "fichier \<Rightarrow> erreur + int list" where
  "json_load f =
     (case f of Fichier_mapping ids \<Rightarrow> Inr ids
      | _ \<Rightarrow> Inl (Erreur_externe ''json.load''))"

section \<open>The index manager\<close>

text \<open>
  \<^verbatim>\<open>_creer_index\<close>: a fresh empty structure of the manager's dimension and an empty
  mapping. The constructor of the library only allocates, so its \<^verbatim>\<open>except\<close> branch is
  not taken.
\<close>

definition creer_index :: "index_faiss \<Rightarrow> index_faiss" where
  "creer_index s = s\<lparr>index := Some (IndexFlatIP (dimension s)), id_mapping := []\<rparr>"

definition chemin_mapping :: "path \<Rightarrow> path" where
  "chemin_mapping chemin = butlast chemin @ [''id_mapping.json'']"

text \<open>
  \<^verbatim>\<open>_charger_index\<close>. Every exception raised inside the \<^verbatim>\<open>try\<close> ends in
  \<^verbatim>\<open>_creer_index\<close>, called on the object as the exception left it; both reads come
  before the dimension check, so the dimension is still the configured one there. The
  dimension check adopts the dimension of the loaded structure; the coherence check only
  logs.
\<close>

definition charger_index :: "disque \<Rightarrow> index_faiss \<Rightarrow> index_faiss" where
  "charger_index dsk s =
     (case dsk (chemin_index s) of
        None \<Rightarrow> creer_index s
      | Some f \<Rightarrow>
         (case read_index f of
            Inl e \<Rightarrow> creer_index s
          | Inr ix \<Rightarrow>
             let s1 = s\<lparr>index := Some ix\<rparr>
             in (case (case dsk (chemin_mapping (chemin_index s1)) of
                         None \<Rightarrow> Inr []
                       | Some g \<Rightarrow> json_load g) of
                   Inl e \<Rightarrow> creer_index s1
                 | Inr ids \<Rightarrow>
                    let s2 = s1\<lparr>id_mapping := ids\<rparr>
                    in if d ix \<noteq> dimension s2 then s2\<lparr>dimension := d ix\<rparr> else s2)))"

text \<open>
  \<^verbatim>\<open>__init__\<close>: \<^verbatim>\<open>chemin_index or FAISS_INDEX_PATH\<close> and
  \<^verbatim>\<open>dimension or EMBEDDINGS_DIMENSION\<close> replace \<^verbatim>\<open>None\<close>, the empty path and \<open>0\<close> by the
  configured values.
\<close>

definition init :: "config \<Rightarrow> disque \<Rightarrow> path option \<Rightarrow> nat option \<Rightarrow> bool \<Rightarrow> index_faiss" where
  "init cfg dsk chemin dimension0 creer_nouveau =
     (let s = \<lparr>chemin_index = (case chemin of None \<Rightarrow> FAISS_INDEX_PATH cfg
                                | Some p \<Rightarrow> if p = [] then FAISS_INDEX_PATH cfg else p),
               dimension = (case dimension0 of None \<Rightarrow> EMBEDDINGS_DIMENSION cfg
                            | Some n \<Rightarrow> if n = 0 then EMBEDDINGS_DIMENSION cfg else n),
               index = None,
               id_mapping = []\<rparr>
      in if creer_nouveau then creer_index s else charger_index dsk s)"

text \<open>The property \<^verbatim>\<open>ntotal\<close>.\<close>

definition ntotal :: "index_faiss \<Rightarrow> nat" where
  "ntotal s = (case index s of None \<Rightarrow> 0 | Some ix \<Rightarrow> faiss_ntotal ix)"

text \<open>
  \<^verbatim>\<open>rechercher\<close>, for a query of one row (the request path reshapes every query to
  \<^verbatim>\<open>[1, n]\<close>). The result is the row of scores and the row of positions.
\<close>

definition rechercher :: "config \<Rightarrow> index_faiss \<Rightarrow> vecteur \<Rightarrow> int option \<Rightarrow> erreur + (real list \<times> int list)" where
  "rechercher cfg s vecteur_requete k0 =
     (let k = (case k0 of None \<Rightarrow> FAISS_TOP_K cfg
               | Some n \<Rightarrow> if n = 0 then FAISS_TOP_K cfg else n)
      in case index s of
           None \<Rightarrow> Inl (Erreur_recherche ValueError_index_non_charge)
         | Some ix \<Rightarrow>
            let k_effective = min k (int (faiss_ntotal ix))
            in if k_effective = 0 then Inr ([0], [- 1])
               else if length vecteur_requete \<noteq> dimension s
               then Inl (Erreur_recherche
                          (ValueError_dimension (length vecteur_requete) (dimension s)))
               else (case faiss_search ix (normalize_L2 vecteur_requete) k_effective of
                       Inl e \<Rightarrow> Inl (Erreur_recherche e)
                     | Inr r \<Rightarrow> Inr r))"

text \<open>\<^verbatim>\<open>ajouter_vecteurs\<close>: the two checks, the normalisation, then both appends.\<close>

definition ajouter_vecteurs ::
  "index_faiss \<Rightarrow> ndarray \<Rightarrow> int list \<Rightarrow> bool \<Rightarrow> (erreur + unit) \<times> index_faiss" where
  "ajouter_vecteurs s vecteurs ids normaliser =
     (case index s of
        None \<Rightarrow> (Inl (Erreur_ajout ValueError_index_non_charge), s)
      | Some ix \<Rightarrow>
         if length ids \<noteq> length (lignes vecteurs)
         then (Inl (Erreur_ajout (ValueError_nombre_ids (length ids) (length (lignes vecteurs)))), s)
         else
           (case faiss_add ix (if normaliser then normalize_L2_lignes vecteurs else vecteurs) of
              Inl e \<Rightarrow> (Inl (Erreur_ajout e), s)
            | Inr ix' \<Rightarrow> (Inr (), s\<lparr>index := Some ix', id_mapping := id_mapping s @ ids\<rparr>)))"

text \<open>\<^verbatim>\<open>obtenir_ids_mysql\<close>: a position outside the mapping becomes \<open>-1\<close>.\<close>

definition obtenir_ids_mysql :: "index_faiss \<Rightarrow> int list \<Rightarrow> int list" where
  "obtenir_ids_mysql s indices_faiss =
     map (\<lambda>idx. if 0 \<le> idx \<and> idx < int (length (id_mapping s))
                then id_mapping s ! nat idx else - 1) indices_faiss"

text \<open>
  One write to the disk, as the operating system lets it end: done, refused before the
  file is opened (the old content stays), or broken after the file has been truncated.
\<close>

datatype ecriture = Ecrit | Echec_intact | Echec_partiel

definition ecrire :: "ecriture \<Rightarrow> path \<Rightarrow> fichier \<Rightarrow> disque \<Rightarrow> (erreur + unit) \<times> disque" where
  "ecrire e p f dsk =
     (case e of
        Ecrit \<Rightarrow> (Inr (), dsk(p \<mapsto> f))
      | Echec_intact \<Rightarrow> (Inl (Erreur_externe ''open''), dsk)
      | Echec_partiel \<Rightarrow> (Inl (Erreur_externe ''write''), dsk(p \<mapsto> Fichier_illisible)))"

record pannes =
  mkdir_echoue :: bool
  ecriture_index :: ecriture
  ecriture_mapping :: ecriture

text \<open>
  \<^verbatim>\<open>sauvegarder\<close>: \<^verbatim>\<open>mkdir\<close> of the parent, \<^verbatim>\<open>faiss.write_index\<close> to the path itself, then
  \<^verbatim>\<open>json.dump\<close> into \<^verbatim>\<open>id_mapping.json\<close> beside it; the \<^verbatim>\<open>except\<close> branch re-raises the
  exception unchanged.
\<close>

definition sauvegarder ::
  "pannes \<Rightarrow> index_faiss \<Rightarrow> path option \<Rightarrow> disque \<Rightarrow> (erreur + unit) \<times> disque" where
  "sauvegarder pn s chemin0 dsk =
     (let chemin = (case chemin0 of None \<Rightarrow> chemin_index s
                    | Some p \<Rightarrow> if p = [] then chemin_index s else p)
      in case index s of
           None \<Rightarrow> (Inl ValueError_index_non_charge, dsk)
         | Some ix \<Rightarrow>
            if mkdir_echoue pn then (Inl (Erreur_externe ''mkdir''), dsk)
            else
              (case ecrire (ecriture_index pn) chemin (Fichier_index ix) dsk of
                 (Inl e, dsk1) \<Rightarrow> (Inl e, dsk1)
               | (Inr u, dsk1) \<Rightarrow>
                  ecrire (ecriture_mapping pn) (chemin_mapping chemin)
                    (Fichier_mapping (id_mapping s)) dsk1))"

text \<open>A row of \<^verbatim>\<open>base_connaissances\<close> as the rebuild selects it.\<close>

record row =
  row_id :: int
  question :: string
  reponse :: string

text \<open>
  What \<^verbatim>\<open>_verifier_triggers\<close> reads from MySQL once connected: the row of
  \<^verbatim>\<open>SHOW GLOBAL STATUS LIKE 'Uptime'\<close> and, when that query is reached, the
  \<^verbatim>\<open>MAX(last_update)\<close> of the active rows (\<^verbatim>\<open>NULL\<close> when there is none).
\<close>

record observation =
  uptime_row :: "int option"
  dernier_changement :: "erreur + datetime option"

text \<open>
  The collaborators during one poll or one rebuild: the rows the rebuild query returns
  (or the exception of \<^verbatim>\<open>connect\<close>, \<^verbatim>\<open>execute\<close> or \<^verbatim>\<open>fetchall\<close>), the encoder, the
  outcome of the writes, what the poll reads from MySQL, and the two readings of
  \<^verbatim>\<open>datetime.now()\<close> in \<^verbatim>\<open>_declencher_rebuild\<close> (the guard, then the recorded start).
\<close>

record environnement =
  mysql_rows :: "erreur + row list"
  encoder_batch :: "string list \<Rightarrow> erreur + ndarray"
  pannes_sauvegarde :: pannes
  mysql_statut :: "erreur + observation"
  maintenant :: datetime
  maintenant_debut :: datetime

text \<open>
  The dictionary a rebuild returns: \<^verbatim>\<open>success\<close> with the number of vectors and the
  dimension (the measured duration and file size are left out), or the refusal with its
  reason.
\<close>

datatype stats = Stats_succes nat nat | Stats_echec string

definition success :: "stats \<Rightarrow> bool" where
  "success st = (case st of Stats_succes n m \<Rightarrow> True | Stats_echec r \<Rightarrow> False)"

text \<open>
  \<^verbatim>\<open>rebuild_depuis_mysql\<close>. It works on the manager itself: \<^verbatim>\<open>_creer_index\<close>,
  \<^verbatim>\<open>ajouter_vecteurs\<close> and \<^verbatim>\<open>sauvegarder\<close> are called on \<^verbatim>\<open>self\<close>, the object the request
  path searches. Every exception is re-raised under the rebuild's message.
\<close>

definition rebuild_depuis_mysql ::
  "environnement \<Rightarrow> index_faiss \<Rightarrow> disque \<Rightarrow> (erreur + stats) \<times> index_faiss \<times> disque" where
  "rebuild_depuis_mysql env s dsk =
     (case mysql_rows env of
        Inl e \<Rightarrow> (Inl (Erreur_rebuild e), s, dsk)
      | Inr rows \<Rightarrow>
         if rows = [] then (Inr (Stats_echec ''Base de donnees vide''), s, dsk)
         else
           let s1 = creer_index s;
               textes = map (\<lambda>r. question r @ '' '' @ reponse r) rows;
               ids = map row_id rows
           in (case encoder_batch env textes of
                 Inl e \<Rightarrow> (Inl (Erreur_rebuild e), s1, dsk)
               | Inr embeddings \<Rightarrow>
                  (case ajouter_vecteurs s1 embeddings ids True of
                     (Inl e, s2) \<Rightarrow> (Inl (Erreur_rebuild e), s2, dsk)
                   | (Inr u, s2) \<Rightarrow>
                      (case sauvegarder (pannes_sauvegarde env) s2 None dsk of
                         (Inl e, dsk1) \<Rightarrow> (Inl (Erreur_rebuild e), s2, dsk1)
                       | (Inr v, dsk1) \<Rightarrow>
                          (Inr (Stats_succes (length rows) (dimension s2)), s2, dsk1)))))"

section \<open>The synchroniser\<close>

datatype raison = Index_n_existe_pas | MySQL_redemarre int | Base_modifiee datetime

text \<open>The lines \<^verbatim>\<open>auto_sync.py\<close> logs at level info or above.\<close>

datatype log =
    Log_trigger1
  | Log_trigger2 int
  | Log_init_timestamp datetime
  | Log_trigger3 datetime datetime
  | Log_skip_en_cours
  | Log_skip_trop_tot raison
  | Log_declenchement raison
  | Log_rebuild_reussi nat
  | Log_rebuild_echoue string
  | Log_erreur_rebuild erreur
  | Log_erreur_mysql erreur
  | Log_rebuild_force

text \<open>
  The \<^verbatim>\<open>FAISSAutoSync\<close> object with what it acts on: its \<^verbatim>\<open>index_manager\<close> (the process
  has one \<^verbatim>\<open>IndexFAISS\<close>, the singleton of \<^verbatim>\<open>obtenir_index\<close>, which the request path
  searches and the synchroniser rebuilds), the files, and the log.
\<close>

record monde =
  index_manager :: index_faiss
  last_update_timestamp :: "datetime option"
  rebuild_en_cours :: bool
  dernier_rebuild_timestamp :: "datetime option"
  rebuild_min_interval_seconds :: real
  fichiers :: disque
  journal :: "log list"

definition journaliser :: "log \<Rightarrow> monde \<Rightarrow> monde" where
  "journaliser l w = w\<lparr>journal := journal w @ [l]\<rparr>"

text \<open>\<^verbatim>\<open>FAISSAutoSync.__init__\<close>.\<close>

definition init_auto_sync :: "index_faiss \<Rightarrow> disque \<Rightarrow> monde" where
  "init_auto_sync s dsk =
     \<lparr>index_manager = s, last_update_timestamp = None, rebuild_en_cours = False,
      dernier_rebuild_timestamp = None, rebuild_min_interval_seconds = 300,
      fichiers = dsk, journal = []\<rparr>"

text \<open>
  \<^verbatim>\<open>_declencher_rebuild\<close>: the two guards, then the rebuild between setting and clearing
  \<^verbatim>\<open>rebuild_en_cours\<close>; the exception of a failed rebuild is logged and goes no further.
\<close>

definition declencher_rebuild :: "environnement \<Rightarrow> raison \<Rightarrow> monde \<Rightarrow> monde" where
  "declencher_rebuild env r w =
     (if rebuild_en_cours w then journaliser Log_skip_en_cours w
      else if (case dernier_rebuild_timestamp w of
                 None \<Rightarrow> False
               | Some t \<Rightarrow> maintenant env - t < rebuild_min_interval_seconds w)
      then journaliser (Log_skip_trop_tot r) w
      else
        let w1 = journaliser (Log_declenchement r)
                   (w\<lparr>rebuild_en_cours := True,
                      dernier_rebuild_timestamp := Some (maintenant_debut env)\<rparr>)
        in (case rebuild_depuis_mysql env (index_manager w1) (fichiers w1) of
              (res, s', dsk') \<Rightarrow>
                (journaliser
                   (case res of
                      Inl e \<Rightarrow> Log_erreur_rebuild e
                    | Inr (Stats_succes n m) \<Rightarrow> Log_rebuild_reussi n
                    | Inr (Stats_echec m) \<Rightarrow> Log_rebuild_echoue m)
                   (w1\<lparr>index_manager := s', fichiers := dsk'\<rparr>))
                \<lparr>rebuild_en_cours := False\<rparr>))"

text \<open>
  \<^verbatim>\<open>_verifier_triggers\<close>: the three rules in order, each returning once it has fired. An
  exception of the MySQL connector is logged and ends the poll.
\<close>

definition verifier_triggers :: "config \<Rightarrow> environnement \<Rightarrow> monde \<Rightarrow> monde" where
  "verifier_triggers cfg env w =
     (if rebuild_en_cours w then w
      else if fichiers w (FAISS_INDEX_PATH cfg) = None
      then declencher_rebuild env Index_n_existe_pas (journaliser Log_trigger1 w)
      else
        (case mysql_statut env of
           Inl e \<Rightarrow> journaliser (Log_erreur_mysql e) w
         | Inr obs \<Rightarrow>
            let suite =
              (case dernier_changement obs of
                 Inl e \<Rightarrow> journaliser (Log_erreur_mysql e) w
               | Inr None \<Rightarrow> w
               | Inr (Some t) \<Rightarrow>
                  (case last_update_timestamp w of
                     None \<Rightarrow> journaliser (Log_init_timestamp t) (w\<lparr>last_update_timestamp := Some t\<rparr>)
                   | Some t0 \<Rightarrow>
                      if t0 < t
                      then (declencher_rebuild env (Base_modifiee t)
                              (journaliser (Log_trigger3 t0 t) w))
                           \<lparr>last_update_timestamp := Some t\<rparr>
                      else w))
            in (case uptime_row obs of
                  None \<Rightarrow> suite
                | Some u \<Rightarrow>
                   if u < AUTO_SYNC_MYSQL_UPTIME_THRESHOLD cfg
                   then declencher_rebuild env (MySQL_redemarre u) (journaliser (Log_trigger2 u) w)
                   else suite)))"

text \<open>\<^verbatim>\<open>forcer_rebuild\<close>: the rebuild, called directly, its exception left to the caller.\<close>

definition forcer_rebuild :: "environnement \<Rightarrow> monde \<Rightarrow> (erreur + stats) \<times> monde" where
  "forcer_rebuild env w =
     (case rebuild_depuis_mysql env (index_manager w) (fichiers w) of
        (res, s', dsk') \<Rightarrow>
          (res, (journaliser Log_rebuild_force w)\<lparr>index_manager := s', fichiers := dsk'\<rparr>))"

text \<open>
  \<^verbatim>\<open>_boucle_surveillance\<close>: one poll after the other, for as long as \<^verbatim>\<open>running\<close> holds;
  the list gives the collaborators at each poll that took place.
\<close>

definition boucle_surveillance :: "config \<Rightarrow> environnement list \<Rightarrow> monde \<Rightarrow> monde" where
  "boucle_surveillance cfg envs w = foldl (\<lambda>w' env. verifier_triggers cfg env w') w envs"

text \<open>The number of rebuilds the synchroniser has started, read off its log.\<close>

definition nb_rebuilds :: "monde \<Rightarrow> nat" where
  "nb_rebuilds w = length (filter (\<lambda>l. case l of Log_declenchement r \<Rightarrow> True | _ \<Rightarrow> False) (journal w))"

section \<open>Confidence\<close>

text \<open>
  \<^verbatim>\<open>rechercher_et_generer\<close>, step 5:
  \<^verbatim>\<open>confiance = max(0.0, min(1.0, (raw_score + 1.0) / 2.0))\<close>.
\<close>

definition confiance :: "real \<Rightarrow> real" where
  "confiance raw_score = max 0 (min 1 ((raw_score + 1) / 2))"

section \<open>Notions the properties are stated with\<close>

text \<open>The invariant of the index state: as many mapped ids as stored vectors.\<close>

definition invariant_mapping :: "index_faiss \<Rightarrow> bool" where
  "invariant_mapping s \<longleftrightarrow> length (id_mapping s) = ntotal s"

text \<open>The \<open>k\<close> a search works with: \<^verbatim>\<open>k or FAISS_TOP_K\<close>.\<close>

definition k_demande :: "config \<Rightarrow> int option \<Rightarrow> int" where
  "k_demande cfg k0 = (case k0 of None \<Rightarrow> FAISS_TOP_K cfg
                        | Some n \<Rightarrow> if n = 0 then FAISS_TOP_K cfg else n)"

text \<open>The path a save writes to: \<^verbatim>\<open>chemin or self.chemin_index\<close>.\<close>

definition chemin_sauvegarde :: "index_faiss \<Rightarrow> path option \<Rightarrow> path" where
  "chemin_sauvegarde s chemin0 =
     (case chemin0 of None \<Rightarrow> chemin_index s
      | Some p \<Rightarrow> if p = [] then chemin_index s else p)"

text \<open>The number of times the modification rule has fired, read off the log.\<close>

definition nb_trigger3 :: "monde \<Rightarrow> nat" where
  "nb_trigger3 w = length (filter (\<lambda>l. case l of Log_trigger3 a b \<Rightarrow> True | _ \<Rightarrow> False) (journal w))"

text \<open>
  The anti-thrash guard lets a request through: no rebuild was started before, or the
  minimum interval has passed since the last one was started.
\<close>

definition intervalle_ecoule :: "environnement \<Rightarrow> monde \<Rightarrow> bool" where
  "intervalle_ecoule env w =
     (case dernier_rebuild_timestamp w of
        None \<Rightarrow> True
      | Some t \<Rightarrow> \<not> maintenant env - t < rebuild_min_interval_seconds w)"

text \<open>
  A poll that gets as far as the modification rule and observes the maximum \<open>t\<close>: no
  rebuild is running, the index file exists, MySQL answers, its uptime is not below the
  threshold.
\<close>

definition regle3_atteinte :: "config \<Rightarrow> environnement \<Rightarrow> monde \<Rightarrow> datetime \<Rightarrow> bool" where
  "regle3_atteinte cfg env w t =
     (\<not> rebuild_en_cours w \<and> fichiers w (FAISS_INDEX_PATH cfg) \<noteq> None \<and>
      (case mysql_statut env of
         Inl e \<Rightarrow> False
       | Inr obs \<Rightarrow>
          (case uptime_row obs of None \<Rightarrow> True
           | Some u \<Rightarrow> \<not> u < AUTO_SYNC_MYSQL_UPTIME_THRESHOLD cfg)
          \<and> dernier_changement obs = Inr (Some t)))"

text \<open>A poll at which the source shows no maximum above \<open>t\<close>.\<close>

definition pas_de_hausse :: "datetime \<Rightarrow> environnement \<Rightarrow> bool" where
  "pas_de_hausse t env =
     (case mysql_statut env of
        Inl e \<Rightarrow> True
      | Inr obs \<Rightarrow> (case dernier_changement obs of Inr (Some t') \<Rightarrow> t' \<le> t | _ \<Rightarrow> True))"

text \<open>A poll at which MySQL does not report a recent restart.\<close>

definition sans_redemarrage :: "config \<Rightarrow> environnement \<Rightarrow> bool" where
  "sans_redemarrage cfg env =
     (case mysql_statut env of
        Inl e \<Rightarrow> True
      | Inr obs \<Rightarrow> (case uptime_row obs of None \<Rightarrow> True
                    | Some u \<Rightarrow> \<not> u < AUTO_SYNC_MYSQL_UPTIME_THRESHOLD cfg))"

section \<open>Sample data\<close>

definition exemple_config :: config where
  "exemple_config =
     \<lparr>FAISS_INDEX_PATH = [''donnees'', ''index_faiss.bin''], FAISS_TOP_K = 3,
      EMBEDDINGS_DIMENSION = 3, AUTO_SYNC_MYSQL_UPTIME_THRESHOLD = 300\<rparr>"

definition exemple_index :: index_faiss where
  "exemple_index =
     \<lparr>chemin_index = [''donnees'', ''index_faiss.bin''], dimension = 2,
      index = Some \<lparr>d = 2, xb = [[1, 0], [0, 1]]\<rparr>, id_mapping = [10, 20]\<rparr>"

definition index_nouveau :: index_faiss where
  "index_nouveau =
     \<lparr>chemin_index = [''donnees'', ''index_faiss.bin''], dimension = 2,
      index = Some \<lparr>d = 2, xb = [[1, 0]]\<rparr>, id_mapping = [30]\<rparr>"

definition index_vide :: index_faiss where
  "index_vide =
     creer_index \<lparr>chemin_index = [''donnees'', ''index_faiss.bin''], dimension = 3,
                  index = None, id_mapping = []\<rparr>"

definition exemple_disque :: disque where
  "exemple_disque =
     [[''donnees'', ''index_faiss.bin''] \<mapsto> Fichier_index \<lparr>d = 2, xb = [[1, 0], [0, 1]]\<rparr>,
      [''donnees'', ''id_mapping.json''] \<mapsto> Fichier_mapping [10, 20]]"

definition disque_sans_mapping :: disque where
  "disque_sans_mapping =
     [[''donnees'', ''index_faiss.bin''] \<mapsto> Fichier_index \<lparr>d = 2, xb = [[1, 0], [0, 1]]\<rparr>]"

definition exemple_rows :: "row list" where
  "exemple_rows = [\<lparr>row_id = 10, question = ''q1'', reponse = ''r1''\<rparr>,
                   \<lparr>row_id = 30, question = ''q3'', reponse = ''r3''\<rparr>,
                   \<lparr>row_id = 40, question = ''q4'', reponse = ''r4''\<rparr>]"

definition encodeur_exemple :: "string list \<Rightarrow> erreur + ndarray" where
  "encodeur_exemple textes = Inr \<lparr>shape1 = 2, lignes = map (\<lambda>t. [1, 0]) textes\<rparr>"

definition encodeur_en_panne :: "string list \<Rightarrow> erreur + ndarray" where
  "encodeur_en_panne textes = Inl (Erreur_externe ''encodeur'')"

definition sans_panne :: pannes where
  "sans_panne = \<lparr>mkdir_echoue = False, ecriture_index = Ecrit, ecriture_mapping = Ecrit\<rparr>"

definition panne_mapping :: pannes where
  "panne_mapping = \<lparr>mkdir_echoue = False, ecriture_index = Ecrit, ecriture_mapping = Echec_intact\<rparr>"

definition env_exemple :: environnement where
  "env_exemple =
     \<lparr>mysql_rows = Inr exemple_rows, encoder_batch = encodeur_exemple,
      pannes_sauvegarde = sans_panne,
      mysql_statut = Inr \<lparr>uptime_row = Some 5000, dernier_changement = Inr (Some 200)\<rparr>,
      maintenant = 1000, maintenant_debut = 1001\<rparr>"

definition exemple_rows_suite :: "row list" where
  "exemple_rows_suite = exemple_rows @ [\<lparr>row_id = 50, question = ''q5'', reponse = ''r5''\<rparr>]"

definition env_suivant :: environnement where
  "env_suivant =
     env_exemple\<lparr>mysql_rows := Inr exemple_rows_suite,
                 mysql_statut := Inr \<lparr>uptime_row = Some 5060, dernier_changement = Inr (Some 250)\<rparr>,
                 maintenant := 1060, maintenant_debut := 1061\<rparr>"

definition env_calme :: environnement where
  "env_calme =
     env_exemple\<lparr>mysql_statut := Inr \<lparr>uptime_row = Some 6000, dernier_changement = Inr (Some 200)\<rparr>,
                 maintenant := 2000, maintenant_debut := 2001\<rparr>"

definition env_encodeur_en_panne :: environnement where
  "env_encodeur_en_panne = env_exemple\<lparr>encoder_batch := encodeur_en_panne\<rparr>"

definition env_source_vide :: environnement where
  "env_source_vide = env_exemple\<lparr>mysql_rows := Inr []\<rparr>"

definition monde_exemple :: monde where
  "monde_exemple = (init_auto_sync exemple_index exemple_disque)\<lparr>last_update_timestamp := Some 100\<rparr>"

definition monde_neuf :: monde where
  "monde_neuf = init_auto_sync exemple_index exemple_disque"

definition monde_recent :: monde where
  "monde_recent = monde_exemple\<lparr>dernier_rebuild_timestamp := Some 900\<rparr>"

section \<open>Confidence normalisation\<close>

text \<open>
  C8. For every raw top-1 similarity score between \<open>-1\<close> and \<open>1\<close>, bounds included, the
  confidence of the pipeline is \<open>(s + 1) / 2\<close>, which the clamp leaves as it is, and it
  lies between \<open>0\<close> and \<open>1\<close>.
\<close>

theorem confiance_dans_0_1:
  assumes "- 1 \<le> s" and "s \<le> 1"
  shows "confiance s = (s + 1) / 2 \<and> 0 \<le> confiance s \<and> confiance s \<le> 1"
  using assms by (simp add: confiance_def)

theorem confiance_dans_0_1_witness:
  "(- 1 \<le> (- 1 :: real) \<and> (- 1 :: real) \<le> 1 \<and> confiance (- 1) = 0)
   \<and> (- 1 \<le> (0 :: real) \<and> (0 :: real) \<le> 1 \<and> confiance 0 = 1 / 2)
   \<and> (- 1 \<le> (1 :: real) \<and> (1 :: real) \<le> 1 \<and> confiance 1 = 1)"
  using confiance_dans_0_1 [of "- 1"] confiance_dans_0_1 [of 0] confiance_dans_0_1 [of 1]
  by simp

section \<open>Auxiliary facts\<close>

lemma ajouter_vecteurs_cas:
  assumes "ajouter_vecteurs s v ids n = (r, s')"
  shows "(isl r \<and> s' = s) \<or>
         (\<exists>ix. index s = Some ix \<and> r = Inr () \<and> length ids = length (lignes v) \<and>
            s' = s\<lparr>index := Some (ix\<lparr>xb := xb ix @ lignes (if n then normalize_L2_lignes v else v)\<rparr>),
                   id_mapping := id_mapping s @ ids\<rparr>)"
  using assms
  by (auto simp: ajouter_vecteurs_def faiss_add_def split: option.splits if_splits sum.splits)

lemma invariant_creer_index: "invariant_mapping (creer_index s)"
  by (simp add: invariant_mapping_def creer_index_def ntotal_def faiss_ntotal_def IndexFlatIP_def)

lemma invariant_ajouter_vecteurs:
  assumes "invariant_mapping s"
  shows "invariant_mapping (snd (ajouter_vecteurs s v ids n))"
proof -
  obtain r s' where aj: "ajouter_vecteurs s v ids n = (r, s')"
    by (cases "ajouter_vecteurs s v ids n")
  from ajouter_vecteurs_cas [OF aj] assms have "invariant_mapping s'"
    by (auto simp: invariant_mapping_def ntotal_def faiss_ntotal_def normalize_L2_lignes_def)
  with aj show ?thesis by simp
qed

lemma invariant_rebuild:
  assumes "invariant_mapping s"
  shows "invariant_mapping (fst (snd (rebuild_depuis_mysql env s dsk)))"
proof -
  have a: "invariant_mapping (snd (ajouter_vecteurs (creer_index s) v ids True))" for v ids
    by (rule invariant_ajouter_vecteurs [OF invariant_creer_index])
  show ?thesis
    using assms invariant_creer_index [of s]
    apply (simp add: rebuild_depuis_mysql_def Let_def split: sum.splits prod.splits)
    apply (intro allI impI conjI)
    using a apply (metis snd_conv)+
    done
qed

lemma length_inserer_tas: "length (inserer_tas x ys) = Suc (length ys)"
  by (induction ys) simp_all

lemma length_add_result: "length (add_result c tas) = length tas"
  by (simp add: add_result_def length_inserer_tas split: list.splits)

lemma length_tas: "length (foldl (\<lambda>t c. add_result c t) tas cs) = length tas"
  by (induction cs arbitrary: tas) (simp_all add: length_add_result)

lemma faiss_search_longueur:
  assumes "length q = d ix" and "0 < k"
  shows "\<exists>ds is. faiss_search ix q k = Inr (ds, is) \<and> length ds = nat k \<and> length is = nat k"
  using assms by (simp add: faiss_search_def Let_def length_tas)

lemma ecrire_garde_fichiers:
  "dsk p \<noteq> None \<Longrightarrow> snd (ecrire e q f dsk) p \<noteq> None"
  by (cases e) (simp_all add: ecrire_def)

lemma sauvegarder_garde_fichiers:
  assumes "dsk p \<noteq> None"
  shows "snd (sauvegarder pn s c dsk) p \<noteq> None"
proof -
  have "snd (case ecrire a q1 f1 dsk of (Inl e, dsk1) \<Rightarrow> (Inl e, dsk1)
              | (Inr u, dsk1) \<Rightarrow> ecrire b q2 f2 dsk1) p \<noteq> None" for a b q1 q2 f1 f2
    using assms by (cases a; cases b) (simp_all add: ecrire_def)
  with assms show ?thesis
    by (simp add: sauvegarder_def Let_def split: option.splits)
qed

lemma rebuild_garde_fichiers:
  assumes "dsk p \<noteq> None"
  shows "snd (snd (rebuild_depuis_mysql env s dsk)) p \<noteq> None"
  using assms sauvegarder_garde_fichiers [of dsk p, OF assms]
  apply (simp add: rebuild_depuis_mysql_def Let_def split: sum.splits prod.splits)
  apply (metis snd_conv)
  done

lemma champs_journaliser [simp]:
  "index_manager (journaliser l w) = index_manager w"
  "fichiers (journaliser l w) = fichiers w"
  "last_update_timestamp (journaliser l w) = last_update_timestamp w"
  "dernier_rebuild_timestamp (journaliser l w) = dernier_rebuild_timestamp w"
  "rebuild_en_cours (journaliser l w) = rebuild_en_cours w"
  "rebuild_min_interval_seconds (journaliser l w) = rebuild_min_interval_seconds w"
  by (simp_all add: journaliser_def)

lemma nb_rebuilds_journaliser:
  "nb_rebuilds (journaliser l w) = nb_rebuilds w + (case l of Log_declenchement r \<Rightarrow> 1 | _ \<Rightarrow> 0)"
  by (simp add: nb_rebuilds_def journaliser_def split: log.splits)

lemma nb_trigger3_journaliser:
  "nb_trigger3 (journaliser l w) = nb_trigger3 w + (case l of Log_trigger3 a b \<Rightarrow> 1 | _ \<Rightarrow> 0)"
  by (simp add: nb_trigger3_def journaliser_def split: log.splits)

lemma compteurs_last_update [simp]:
  "nb_rebuilds (w\<lparr>last_update_timestamp := x\<rparr>) = nb_rebuilds w"
  "nb_trigger3 (w\<lparr>last_update_timestamp := x\<rparr>) = nb_trigger3 w"
  by (simp_all add: nb_rebuilds_def nb_trigger3_def)

lemma intervalle_ecoule_journaliser [simp]:
  "intervalle_ecoule env (journaliser l w) = intervalle_ecoule env w"
  by (simp add: intervalle_ecoule_def split: option.splits)

lemma declencher_rebuild_saute:
  assumes "rebuild_en_cours w \<or> \<not> intervalle_ecoule env w"
  shows "declencher_rebuild env r w =
           journaliser (if rebuild_en_cours w then Log_skip_en_cours else Log_skip_trop_tot r) w"
  using assms
  by (auto simp: declencher_rebuild_def intervalle_ecoule_def split: option.splits)

lemma declencher_rebuild_lance:
  assumes "\<not> rebuild_en_cours w" and "intervalle_ecoule env w"
  shows "\<exists>l s' dsk'. (case l of Log_erreur_rebuild e \<Rightarrow> True | Log_rebuild_reussi n \<Rightarrow> True
                        | Log_rebuild_echoue m \<Rightarrow> True | _ \<Rightarrow> False) \<and>
           (l, s', dsk') = (case rebuild_depuis_mysql env (index_manager w) (fichiers w) of
              (res, s', dsk') \<Rightarrow>
                 ((case res of Inl e \<Rightarrow> Log_erreur_rebuild e
                   | Inr (Stats_succes n m) \<Rightarrow> Log_rebuild_reussi n
                   | Inr (Stats_echec m) \<Rightarrow> Log_rebuild_echoue m), s', dsk')) \<and>
           declencher_rebuild env r w =
             w\<lparr>index_manager := s', dernier_rebuild_timestamp := Some (maintenant_debut env),
               fichiers := dsk', journal := journal w @ [Log_declenchement r, l]\<rparr>"
proof -
  obtain res s' dsk' where rb: "rebuild_depuis_mysql env (index_manager w) (fichiers w) = (res, s', dsk')"
    by (cases "rebuild_depuis_mysql env (index_manager w) (fichiers w)")
  have g: "\<not> (case dernier_rebuild_timestamp w of None \<Rightarrow> False
               | Some t \<Rightarrow> maintenant env - t < rebuild_min_interval_seconds w)"
    using assms(2) by (simp add: intervalle_ecoule_def split: option.splits)
  show ?thesis
    using assms(1) g rb
    by (simp add: declencher_rebuild_def journaliser_def Let_def split: sum.splits stats.splits)
qed

lemma declencher_rebuild_champs:
  "last_update_timestamp (declencher_rebuild env r w) = last_update_timestamp w"
  "rebuild_en_cours (declencher_rebuild env r w) = rebuild_en_cours w"
  "rebuild_min_interval_seconds (declencher_rebuild env r w) = rebuild_min_interval_seconds w"
  "nb_trigger3 (declencher_rebuild env r w) = nb_trigger3 w"
  "nb_rebuilds (declencher_rebuild env r w) =
     nb_rebuilds w + (if \<not> rebuild_en_cours w \<and> intervalle_ecoule env w then 1 else 0)"
  "dernier_rebuild_timestamp (declencher_rebuild env r w) =
     (if \<not> rebuild_en_cours w \<and> intervalle_ecoule env w then Some (maintenant_debut env)
      else dernier_rebuild_timestamp w)"
proof -
  consider (saute) "rebuild_en_cours w \<or> \<not> intervalle_ecoule env w"
    | (lance) "\<not> rebuild_en_cours w" "intervalle_ecoule env w" by blast
  then have "last_update_timestamp (declencher_rebuild env r w) = last_update_timestamp w
    \<and> rebuild_en_cours (declencher_rebuild env r w) = rebuild_en_cours w
    \<and> rebuild_min_interval_seconds (declencher_rebuild env r w) = rebuild_min_interval_seconds w
    \<and> nb_trigger3 (declencher_rebuild env r w) = nb_trigger3 w
    \<and> nb_rebuilds (declencher_rebuild env r w) =
        nb_rebuilds w + (if \<not> rebuild_en_cours w \<and> intervalle_ecoule env w then 1 else 0)
    \<and> dernier_rebuild_timestamp (declencher_rebuild env r w) =
     (if \<not> rebuild_en_cours w \<and> intervalle_ecoule env w then Some (maintenant_debut env)
      else dernier_rebuild_timestamp w)"
  proof cases
    case saute
    then show ?thesis
      by (auto simp: declencher_rebuild_saute nb_rebuilds_journaliser nb_trigger3_journaliser)
  next
    case lance
    from declencher_rebuild_lance [OF lance, of r]
    obtain l s' dsk' where l: "case l of Log_erreur_rebuild e \<Rightarrow> True | Log_rebuild_reussi n \<Rightarrow> True
                        | Log_rebuild_echoue m \<Rightarrow> True | _ \<Rightarrow> False"
      and eq: "declencher_rebuild env r w =
             w\<lparr>index_manager := s', dernier_rebuild_timestamp := Some (maintenant_debut env),
               fichiers := dsk', journal := journal w @ [Log_declenchement r, l]\<rparr>" by blast
    from l lance show ?thesis
      by (cases l) (simp_all add: eq nb_rebuilds_def nb_trigger3_def)
  qed
  then show
  "last_update_timestamp (declencher_rebuild env r w) = last_update_timestamp w"
  "rebuild_en_cours (declencher_rebuild env r w) = rebuild_en_cours w"
  "rebuild_min_interval_seconds (declencher_rebuild env r w) = rebuild_min_interval_seconds w"
  "nb_trigger3 (declencher_rebuild env r w) = nb_trigger3 w"
  "nb_rebuilds (declencher_rebuild env r w) =
     nb_rebuilds w + (if \<not> rebuild_en_cours w \<and> intervalle_ecoule env w then 1 else 0)"
  "dernier_rebuild_timestamp (declencher_rebuild env r w) =
     (if \<not> rebuild_en_cours w \<and> intervalle_ecoule env w then Some (maintenant_debut env)
      else dernier_rebuild_timestamp w)"
    by blast+
qed

lemma declencher_garde_fichiers:
  assumes "fichiers w p \<noteq> None"
  shows "fichiers (declencher_rebuild env r w) p \<noteq> None"
proof -
  obtain res s' dsk' where rb:
    "rebuild_depuis_mysql env (index_manager w) (fichiers w) = (res, s', dsk')"
    by (cases "rebuild_depuis_mysql env (index_manager w) (fichiers w)")
  with rebuild_garde_fichiers [of "fichiers w" p env "index_manager w", OF assms] have "dsk' p \<noteq> None" by simp
  with assms rb show ?thesis
    by (simp add: declencher_rebuild_def journaliser_def Let_def)
qed

lemma verifier_triggers_regle3:
  assumes "regle3_atteinte cfg env w t"
  shows "verifier_triggers cfg env w =
     (case last_update_timestamp w of
        None \<Rightarrow> journaliser (Log_init_timestamp t) (w\<lparr>last_update_timestamp := Some t\<rparr>)
      | Some t0 \<Rightarrow>
         if t0 < t
         then (declencher_rebuild env (Base_modifiee t) (journaliser (Log_trigger3 t0 t) w))
              \<lparr>last_update_timestamp := Some t\<rparr>
         else w)"
  using assms
  by (auto simp: regle3_atteinte_def verifier_triggers_def Let_def
      split: sum.splits option.splits)

lemma nb_rebuilds_regle3:
  assumes "regle3_atteinte cfg env w t" and "last_update_timestamp w = Some t0"
    and "intervalle_ecoule env w"
  shows "nb_rebuilds (verifier_triggers cfg env w) = nb_rebuilds w + (if t0 < t then 1 else 0)"
proof -
  from assms(1) have "\<not> rebuild_en_cours w" by (simp add: regle3_atteinte_def)
  with assms(2,3) show ?thesis
    by (simp add: verifier_triggers_regle3 [OF assms(1)] declencher_rebuild_champs
        nb_rebuilds_journaliser)
qed

lemma verifier_triggers_garde:
  assumes "\<not> intervalle_ecoule env w"
  shows "index_manager (verifier_triggers cfg env w) = index_manager w
       \<and> fichiers (verifier_triggers cfg env w) = fichiers w
       \<and> nb_rebuilds (verifier_triggers cfg env w) = nb_rebuilds w
       \<and> dernier_rebuild_timestamp (verifier_triggers cfg env w) = dernier_rebuild_timestamp w"
  using assms
  by (simp add: verifier_triggers_def Let_def declencher_rebuild_saute nb_rebuilds_journaliser
      split: sum.splits option.splits)

lemma verifier_triggers_compte:
  "rebuild_min_interval_seconds (verifier_triggers cfg env w) = rebuild_min_interval_seconds w
   \<and> (nb_rebuilds (verifier_triggers cfg env w) = nb_rebuilds w
      \<or> nb_rebuilds (verifier_triggers cfg env w) = Suc (nb_rebuilds w)
        \<and> dernier_rebuild_timestamp (verifier_triggers cfg env w) = Some (maintenant_debut env))"
  by (simp add: verifier_triggers_def Let_def declencher_rebuild_champs nb_rebuilds_journaliser
      split: sum.splits option.splits)

lemma verifier_triggers_sans_hausse:
  assumes "last_update_timestamp w = Some t" and "pas_de_hausse t env"
  shows "last_update_timestamp (verifier_triggers cfg env w) = Some t
       \<and> nb_trigger3 (verifier_triggers cfg env w) = nb_trigger3 w"
  using assms
  by (auto simp: verifier_triggers_def Let_def pas_de_hausse_def declencher_rebuild_champs
      nb_trigger3_journaliser split: sum.splits option.splits)

lemma verifier_triggers_au_repos:
  assumes "last_update_timestamp w = Some t" and "pas_de_hausse t env"
    and "sans_redemarrage cfg env" and "fichiers w (FAISS_INDEX_PATH cfg) \<noteq> None"
  shows "index_manager (verifier_triggers cfg env w) = index_manager w
       \<and> fichiers (verifier_triggers cfg env w) = fichiers w
       \<and> nb_rebuilds (verifier_triggers cfg env w) = nb_rebuilds w"
  using assms
  by (auto simp: verifier_triggers_def Let_def pas_de_hausse_def sans_redemarrage_def
      nb_rebuilds_journaliser split: sum.splits option.splits)

lemma boucle_sans_hausse:
  assumes "last_update_timestamp w = Some t" and "\<forall>e \<in> set envs. pas_de_hausse t e"
  shows "last_update_timestamp (boucle_surveillance cfg envs w) = Some t
       \<and> nb_trigger3 (boucle_surveillance cfg envs w) = nb_trigger3 w"
  using assms
proof (induction envs arbitrary: w)
  case Nil
  then show ?case by (simp add: boucle_surveillance_def)
next
  case (Cons e envs)
  from Cons.prems have h: "pas_de_hausse t e" and r: "\<forall>e \<in> set envs. pas_de_hausse t e"
    by simp_all
  note pas = verifier_triggers_sans_hausse [OF Cons.prems(1) h, of cfg]
  from Cons.IH [of "verifier_triggers cfg e w"] pas r
  show ?case by (simp add: boucle_surveillance_def)
qed

lemma boucle_au_repos:
  assumes "last_update_timestamp w = Some t" and "fichiers w (FAISS_INDEX_PATH cfg) \<noteq> None"
    and "\<forall>e \<in> set envs. pas_de_hausse t e \<and> sans_redemarrage cfg e"
  shows "index_manager (boucle_surveillance cfg envs w) = index_manager w
       \<and> fichiers (boucle_surveillance cfg envs w) = fichiers w
       \<and> nb_rebuilds (boucle_surveillance cfg envs w) = nb_rebuilds w"
  using assms
proof (induction envs arbitrary: w)
  case Nil
  then show ?case by (simp add: boucle_surveillance_def)
next
  case (Cons e envs)
  from Cons.prems have h: "pas_de_hausse t e" "sans_redemarrage cfg e"
    and r: "\<forall>e \<in> set envs. pas_de_hausse t e \<and> sans_redemarrage cfg e"
    by simp_all
  note lu = verifier_triggers_sans_hausse [OF Cons.prems(1) h(1), of cfg]
  note rp = verifier_triggers_au_repos [OF Cons.prems(1) h Cons.prems(2)]
  from Cons.IH [of "verifier_triggers cfg e w"] lu rp r Cons.prems(2)
  show ?case by (simp add: boucle_surveillance_def)
qed

lemma declencher_rebuild_effet:
  assumes "\<not> rebuild_en_cours w" and "intervalle_ecoule env w"
  shows "index_manager (declencher_rebuild env r w)
           = fst (snd (rebuild_depuis_mysql env (index_manager w) (fichiers w)))
       \<and> fichiers (declencher_rebuild env r w)
           = snd (snd (rebuild_depuis_mysql env (index_manager w) (fichiers w)))"
proof -
  obtain res s' dsk' where rb:
    "rebuild_depuis_mysql env (index_manager w) (fichiers w) = (res, s', dsk')"
    by (cases "rebuild_depuis_mysql env (index_manager w) (fichiers w)")
  have g: "\<not> (case dernier_rebuild_timestamp w of None \<Rightarrow> False
               | Some t \<Rightarrow> maintenant env - t < rebuild_min_interval_seconds w)"
    using assms(2) by (simp add: intervalle_ecoule_def split: option.splits)
  show ?thesis
    using assms(1) g rb by (simp add: declencher_rebuild_def journaliser_def Let_def)
qed

lemma forcer_rebuild_champs:
  "dernier_rebuild_timestamp (snd (forcer_rebuild env w)) = dernier_rebuild_timestamp w
   \<and> last_update_timestamp (snd (forcer_rebuild env w)) = last_update_timestamp w
   \<and> rebuild_en_cours (snd (forcer_rebuild env w)) = rebuild_en_cours w
   \<and> rebuild_min_interval_seconds (snd (forcer_rebuild env w)) = rebuild_min_interval_seconds w
   \<and> nb_rebuilds (snd (forcer_rebuild env w)) = nb_rebuilds w
   \<and> fst (forcer_rebuild env w) = fst (rebuild_depuis_mysql env (index_manager w) (fichiers w))
   \<and> index_manager (snd (forcer_rebuild env w))
       = fst (snd (rebuild_depuis_mysql env (index_manager w) (fichiers w)))
   \<and> fichiers (snd (forcer_rebuild env w))
       = snd (snd (rebuild_depuis_mysql env (index_manager w) (fichiers w)))"
  by (cases "rebuild_depuis_mysql env (index_manager w) (fichiers w)")
     (simp add: forcer_rebuild_def journaliser_def nb_rebuilds_def)

lemma verifier_triggers_regle3_effet:
  assumes "regle3_atteinte cfg env w t" and "last_update_timestamp w = Some t0" and "t0 < t"
    and "intervalle_ecoule env w"
  shows "index_manager (verifier_triggers cfg env w)
           = fst (snd (rebuild_depuis_mysql env (index_manager w) (fichiers w)))
       \<and> fichiers (verifier_triggers cfg env w)
           = snd (snd (rebuild_depuis_mysql env (index_manager w) (fichiers w)))
       \<and> dernier_rebuild_timestamp (verifier_triggers cfg env w) = Some (maintenant_debut env)
       \<and> last_update_timestamp (verifier_triggers cfg env w) = Some t
       \<and> rebuild_min_interval_seconds (verifier_triggers cfg env w)
           = rebuild_min_interval_seconds w"
proof -
  let ?w0 = "journaliser (Log_trigger3 t0 t) w"
  from assms(1) have nc: "\<not> rebuild_en_cours ?w0" by (simp add: regle3_atteinte_def)
  from assms(4) have ie: "intervalle_ecoule env ?w0" by simp
  have eq: "verifier_triggers cfg env w
      = (declencher_rebuild env (Base_modifiee t) ?w0)\<lparr>last_update_timestamp := Some t\<rparr>"
    using verifier_triggers_regle3 [OF assms(1)] assms(2,3) by simp
  from declencher_rebuild_effet [OF nc ie, of "Base_modifiee t"] nc ie
  show ?thesis
    by (simp add: eq declencher_rebuild_champs)
qed

lemma rebuild_id_mapping:
  assumes "mysql_rows env = Inr rows" and "rows \<noteq> []"
    and "encoder_batch env (map (\<lambda>r. question r @ '' '' @ reponse r) rows) = Inr emb"
    and "shape1 emb = dimension s" and "length (lignes emb) = length rows"
  shows "id_mapping (fst (snd (rebuild_depuis_mysql env s dsk))) = map row_id rows"
proof -
  have aj: "ajouter_vecteurs (creer_index s) emb (map row_id rows) True
      = (Inr (), (creer_index s)\<lparr>index := Some \<lparr>d = dimension s, xb = map normalize_L2 (lignes emb)\<rparr>,
                                 id_mapping := map row_id rows\<rparr>)"
    using assms(4,5)
    by (simp add: ajouter_vecteurs_def creer_index_def IndexFlatIP_def faiss_add_def
        normalize_L2_lignes_def)
  show ?thesis
    using assms(1-3)
    by (simp add: rebuild_depuis_mysql_def Let_def aj split: sum.splits prod.splits)
qed

lemma rebuild_exemple:
  "rebuild_depuis_mysql env_exemple exemple_index exemple_disque
     = (Inr (Stats_succes 3 2),
        exemple_index\<lparr>index := Some \<lparr>d = 2, xb = [[1, 0], [1, 0], [1, 0]]\<rparr>,
                      id_mapping := [10, 30, 40]\<rparr>,
        exemple_disque([''donnees'', ''index_faiss.bin'']
                          \<mapsto> Fichier_index \<lparr>d = 2, xb = [[1, 0], [1, 0], [1, 0]]\<rparr>,
                       [''donnees'', ''id_mapping.json''] \<mapsto> Fichier_mapping [10, 30, 40]))"
  by (simp add: rebuild_depuis_mysql_def env_exemple_def exemple_rows_def encodeur_exemple_def
      creer_index_def exemple_index_def IndexFlatIP_def ajouter_vecteurs_def faiss_add_def
      normalize_L2_lignes_def normalize_L2_def norme2_def sauvegarder_def sans_panne_def
      ecrire_def chemin_mapping_def Let_def)

section \<open>The properties of the index and of the synchroniser\<close>

subsection \<open>A rebuild that fails\<close>

text \<open>
  C1, as the code has it. The rebuild works in place on the one index object that the
  request path searches. When \<^verbatim>\<open>rebuild_depuis_mysql\<close> raises, one of three things has
  happened: the source query failed, and the index and the files are what they were; or
  the encoding or the insertion failed, and the index is the empty one that
  \<^verbatim>\<open>_creer_index\<close> has just put in place, the files untouched; or the save failed, and
  the index is the rebuilt one, with one id and one vector per row of the source.
\<close>

theorem rebuild_echec:
  assumes "rebuild_depuis_mysql env s dsk = (Inl e, s', dsk')"
  shows "(\<exists>c. mysql_rows env = Inl c \<and> s' = s \<and> dsk' = dsk)
       \<or> (\<exists>rows. mysql_rows env = Inr rows \<and> rows \<noteq> []
             \<and> (isl (encoder_batch env (map (\<lambda>r. question r @ '' '' @ reponse r) rows))
                \<or> (\<exists>emb. encoder_batch env (map (\<lambda>r. question r @ '' '' @ reponse r) rows) = Inr emb
                      \<and> isl (fst (ajouter_vecteurs (creer_index s) emb (map row_id rows) True))))
             \<and> s' = creer_index s \<and> dsk' = dsk)
       \<or> (\<exists>rows emb. mysql_rows env = Inr rows \<and> rows \<noteq> []
             \<and> encoder_batch env (map (\<lambda>r. question r @ '' '' @ reponse r) rows) = Inr emb
             \<and> ajouter_vecteurs (creer_index s) emb (map row_id rows) True = (Inr (), s')
             \<and> isl (fst (sauvegarder (pannes_sauvegarde env) s' None dsk))
             \<and> dsk' = snd (sauvegarder (pannes_sauvegarde env) s' None dsk)
             \<and> id_mapping s' = map row_id rows \<and> ntotal s' = length rows)"
proof (cases "mysql_rows env")
  case (Inl c)
  with assms show ?thesis by (simp add: rebuild_depuis_mysql_def)
next
  case (Inr rows)
  show ?thesis
  proof (cases "rows = []")
    case True
    with Inr assms show ?thesis by (simp add: rebuild_depuis_mysql_def)
  next
    case False
    let ?textes = "map (\<lambda>r. question r @ '' '' @ reponse r) rows"
    show ?thesis
    proof (cases "encoder_batch env ?textes")
      case (Inl c)
      with Inr False assms have "s' = creer_index s \<and> dsk' = dsk"
        by (simp add: rebuild_depuis_mysql_def Let_def)
      with Inr False Inl show ?thesis by simp
    next
      case emb: (Inr embeddings)
      obtain r s2 where aj: "ajouter_vecteurs (creer_index s) embeddings (map row_id rows) True = (r, s2)"
        by (cases "ajouter_vecteurs (creer_index s) embeddings (map row_id rows) True")
      from ajouter_vecteurs_cas [OF aj] show ?thesis
      proof
        assume a: "isl r \<and> s2 = creer_index s"
        with Inr False emb aj assms have "s' = creer_index s \<and> dsk' = dsk"
          by (auto simp: rebuild_depuis_mysql_def Let_def isl_def)
        moreover from a aj
        have "isl (fst (ajouter_vecteurs (creer_index s) embeddings (map row_id rows) True))"
          by simp
        ultimately show ?thesis using Inr False emb by auto
      next
        assume "\<exists>ix. index (creer_index s) = Some ix \<and> r = Inr () \<and>
           length (map row_id rows) = length (lignes embeddings) \<and>
           s2 = (creer_index s)\<lparr>index := Some (ix\<lparr>xb := xb ix @ lignes (if True then normalize_L2_lignes embeddings else embeddings)\<rparr>),
                   id_mapping := id_mapping (creer_index s) @ map row_id rows\<rparr>"
        then have r: "r = Inr ()" and idm: "id_mapping s2 = map row_id rows"
          and nt: "ntotal s2 = length rows"
          by (auto simp: creer_index_def IndexFlatIP_def ntotal_def faiss_ntotal_def normalize_L2_lignes_def)
        obtain r3 dsk3 where sv: "sauvegarder (pannes_sauvegarde env) s2 None dsk = (r3, dsk3)"
          by (cases "sauvegarder (pannes_sauvegarde env) s2 None dsk")
        with Inr False emb aj r assms have "isl r3 \<and> s' = s2 \<and> dsk' = dsk3"
          by (auto simp: rebuild_depuis_mysql_def Let_def split: sum.splits)
        with sv idm nt aj r have "ajouter_vecteurs (creer_index s) embeddings (map row_id rows) True = (Inr (), s')
             \<and> isl (fst (sauvegarder (pannes_sauvegarde env) s' None dsk))
             \<and> dsk' = snd (sauvegarder (pannes_sauvegarde env) s' None dsk)
             \<and> id_mapping s' = map row_id rows \<and> ntotal s' = length rows"
          by simp
        with Inr False emb show ?thesis by blast
      qed
    qed
  qed
qed

text \<open>
  The encoder raises during a rebuild of an index of two vectors: the index that the
  request path searches has no vector and no id afterwards.
\<close>

theorem rebuild_echec_counterexample:
  "isl (fst (rebuild_depuis_mysql env_encodeur_en_panne exemple_index exemple_disque))
   \<and> ntotal exemple_index = 2
   \<and> ntotal (fst (snd (rebuild_depuis_mysql env_encodeur_en_panne exemple_index exemple_disque))) = 0
   \<and> id_mapping exemple_index = [10, 20]
   \<and> id_mapping (fst (snd (rebuild_depuis_mysql env_encodeur_en_panne exemple_index exemple_disque))) = []"
  by (simp add: rebuild_depuis_mysql_def env_encodeur_en_panne_def env_exemple_def exemple_rows_def
      encodeur_en_panne_def creer_index_def exemple_index_def IndexFlatIP_def ntotal_def
      faiss_ntotal_def)

text \<open>The same run, read through the theorem: the second case.\<close>

theorem rebuild_echec_witness:
  "rebuild_depuis_mysql env_encodeur_en_panne exemple_index exemple_disque
     = (Inl (Erreur_rebuild (Erreur_externe ''encodeur'')), creer_index exemple_index, exemple_disque)
   \<and> mysql_rows env_encodeur_en_panne = Inr exemple_rows
   \<and> ntotal (creer_index exemple_index) = 0"
proof -
  have h: "rebuild_depuis_mysql env_encodeur_en_panne exemple_index exemple_disque
     = (Inl (Erreur_rebuild (Erreur_externe ''encodeur'')), creer_index exemple_index, exemple_disque)"
    by (simp add: rebuild_depuis_mysql_def env_encodeur_en_panne_def env_exemple_def
        exemple_rows_def encodeur_en_panne_def)
  from rebuild_echec [OF h] h show ?thesis
    by (auto simp: env_encodeur_en_panne_def env_exemple_def creer_index_def IndexFlatIP_def
        ntotal_def faiss_ntotal_def)
qed

subsection \<open>Loading\<close>

text \<open>
  C2, as the code has it. When the index file is absent, or is not a readable
  structure, or the mapping file is there and cannot be read, \<^verbatim>\<open>_charger_index\<close> falls
  back to an empty index of the configured dimension. When both reads succeed (or the
  mapping file is absent), the loaded structure is kept and the manager takes over its
  dimension, also when that is not the configured one.
\<close>

theorem charger_index_cas:
  "((dsk (chemin_index s) = None
      \<or> (\<exists>f. dsk (chemin_index s) = Some f \<and> isl (read_index f))
      \<or> (\<exists>g. dsk (chemin_mapping (chemin_index s)) = Some g \<and> isl (json_load g)))
     \<longrightarrow> charger_index dsk s = creer_index s
         \<and> ntotal (charger_index dsk s) = 0
         \<and> id_mapping (charger_index dsk s) = []
         \<and> dimension (charger_index dsk s) = dimension s
         \<and> index (charger_index dsk s) = Some (IndexFlatIP (dimension s)))
   \<and> ((dsk (chemin_index s) = Some (Fichier_index ix)
        \<and> (dsk (chemin_mapping (chemin_index s)) = None
            \<or> (\<exists>ids. dsk (chemin_mapping (chemin_index s)) = Some (Fichier_mapping ids))))
     \<longrightarrow> index (charger_index dsk s) = Some ix
         \<and> dimension (charger_index dsk s) = d ix)"
  by (auto simp: charger_index_def creer_index_def read_index_def json_load_def ntotal_def faiss_ntotal_def
      IndexFlatIP_def Let_def split: option.splits fichier.splits sum.splits)

text \<open>
  The configured dimension is 3 and the file holds a structure of dimension 2 with two
  vectors: the load keeps the two vectors and the dimension becomes 2.
\<close>

theorem charger_index_counterexample:
  "EMBEDDINGS_DIMENSION exemple_config = 3
   \<and> dimension (init exemple_config exemple_disque None None False) = 2
   \<and> ntotal (init exemple_config exemple_disque None None False) = 2
   \<and> id_mapping (init exemple_config exemple_disque None None False) = [10, 20]"
  by (simp add: init_def exemple_config_def exemple_disque_def charger_index_def read_index_def json_load_def
      chemin_mapping_def ntotal_def faiss_ntotal_def Let_def)

text \<open>No file at all, and then the two files of the sample disk.\<close>

theorem charger_index_cas_witness:
  "Map.empty (chemin_index index_vide) = (None :: fichier option)
   \<and> charger_index Map.empty index_vide = creer_index index_vide
   \<and> dimension (charger_index Map.empty index_vide) = 3
   \<and> exemple_disque (chemin_index index_vide) = Some (Fichier_index \<lparr>d = 2, xb = [[1, 0], [0, 1]]\<rparr>)
   \<and> exemple_disque (chemin_mapping (chemin_index index_vide)) = Some (Fichier_mapping [10, 20])
   \<and> index (charger_index exemple_disque index_vide) = Some \<lparr>d = 2, xb = [[1, 0], [0, 1]]\<rparr>
   \<and> dimension (charger_index exemple_disque index_vide) = 2"
proof -
  have a: "Map.empty (chemin_index index_vide) = (None :: fichier option)" by simp
  have b: "exemple_disque (chemin_index index_vide)
             = Some (Fichier_index \<lparr>d = 2, xb = [[1, 0], [0, 1]]\<rparr>)"
    by (simp add: exemple_disque_def index_vide_def creer_index_def)
  have c: "exemple_disque (chemin_mapping (chemin_index index_vide)) = Some (Fichier_mapping [10, 20])"
    by (simp add: exemple_disque_def index_vide_def creer_index_def chemin_mapping_def)
  have e: "dimension index_vide = 3" by (simp add: index_vide_def creer_index_def)
  from charger_index_cas [of Map.empty index_vide "\<lparr>d = 2, xb = [[1, 0], [0, 1]]\<rparr>"]
    charger_index_cas [of exemple_disque index_vide "\<lparr>d = 2, xb = [[1, 0], [0, 1]]\<rparr>"] a b c e
  show ?thesis by (simp add: read_index_def json_load_def creer_index_def)
qed

subsection \<open>Saving\<close>

text \<open>
  C3, as the code has it. \<^verbatim>\<open>sauvegarder\<close> writes the structure to the index path itself
  and then the mapping to \<^verbatim>\<open>id_mapping.json\<close> beside it; no other path is written and
  nothing is renamed. Once the first write is done the index file holds the new
  structure; the mapping file holds the new mapping only if the second write succeeds,
  and otherwise is the old one (the write was refused) or unreadable (the write broke
  off), while the exception goes to the caller.
\<close>

theorem sauvegarder_ecritures:
  assumes "index s = Some ix" and "\<not> mkdir_echoue pn" and "ecriture_index pn = Ecrit"
    and "chemin = chemin_sauvegarde s chemin0"
    and "chemin_mapping chemin \<noteq> chemin"
  shows "(\<forall>p. p \<noteq> chemin \<and> p \<noteq> chemin_mapping chemin
            \<longrightarrow> snd (sauvegarder pn s chemin0 dsk) p = dsk p)
       \<and> snd (sauvegarder pn s chemin0 dsk) chemin = Some (Fichier_index ix)
       \<and> (ecriture_mapping pn = Ecrit \<longrightarrow>
            fst (sauvegarder pn s chemin0 dsk) = Inr ()
            \<and> snd (sauvegarder pn s chemin0 dsk) (chemin_mapping chemin)
                = Some (Fichier_mapping (id_mapping s)))
       \<and> (ecriture_mapping pn = Echec_intact \<longrightarrow>
            isl (fst (sauvegarder pn s chemin0 dsk))
            \<and> snd (sauvegarder pn s chemin0 dsk) (chemin_mapping chemin)
                = dsk (chemin_mapping chemin))
       \<and> (ecriture_mapping pn = Echec_partiel \<longrightarrow>
            isl (fst (sauvegarder pn s chemin0 dsk))
            \<and> snd (sauvegarder pn s chemin0 dsk) (chemin_mapping chemin)
                = Some Fichier_illisible)"
proof -
  have sv: "sauvegarder pn s chemin0 dsk =
      ecrire (ecriture_mapping pn) (chemin_mapping chemin) (Fichier_mapping (id_mapping s))
        (dsk(chemin \<mapsto> Fichier_index ix))"
    using assms(1-4)
    by (simp add: sauvegarder_def chemin_sauvegarde_def ecrire_def Let_def)
  show ?thesis
    using assms(5) by (cases "ecriture_mapping pn") (simp_all add: sv ecrire_def)
qed

text \<open>
  The second write is refused: the index file holds the new structure of one vector, the
  mapping file still lists the two old ids.
\<close>

theorem sauvegarder_counterexample:
  "snd (sauvegarder panne_mapping index_nouveau None exemple_disque) [''donnees'', ''index_faiss.bin'']
     = Some (Fichier_index \<lparr>d = 2, xb = [[1, 0]]\<rparr>)
   \<and> snd (sauvegarder panne_mapping index_nouveau None exemple_disque) [''donnees'', ''id_mapping.json'']
     = Some (Fichier_mapping [10, 20])
   \<and> id_mapping index_nouveau = [30]"
  by (simp add: sauvegarder_def panne_mapping_def index_nouveau_def exemple_disque_def
      ecrire_def chemin_mapping_def)

text \<open>A save with both writes done.\<close>

theorem sauvegarder_ecritures_witness:
  "index index_nouveau = Some \<lparr>d = 2, xb = [[1, 0]]\<rparr>
   \<and> \<not> mkdir_echoue sans_panne \<and> ecriture_index sans_panne = Ecrit
   \<and> chemin_mapping (chemin_index index_nouveau) \<noteq> chemin_index index_nouveau
   \<and> ecriture_mapping sans_panne = Ecrit
   \<and> fst (sauvegarder sans_panne index_nouveau None exemple_disque) = Inr ()
   \<and> snd (sauvegarder sans_panne index_nouveau None exemple_disque) (chemin_index index_nouveau)
       = Some (Fichier_index \<lparr>d = 2, xb = [[1, 0]]\<rparr>)
   \<and> snd (sauvegarder sans_panne index_nouveau None exemple_disque)
         (chemin_mapping (chemin_index index_nouveau))
       = Some (Fichier_mapping (id_mapping index_nouveau))"
proof -
  have a: "index index_nouveau = Some \<lparr>d = 2, xb = [[1, 0]]\<rparr>"
    by (simp add: index_nouveau_def)
  have b: "\<not> mkdir_echoue sans_panne" and c: "ecriture_index sans_panne = Ecrit"
    and e: "ecriture_mapping sans_panne = Ecrit"
    by (simp_all add: sans_panne_def)
  have f: "chemin_mapping (chemin_index index_nouveau) \<noteq> chemin_index index_nouveau"
    by (simp add: index_nouveau_def chemin_mapping_def)
  have g: "chemin_index index_nouveau = chemin_sauvegarde index_nouveau None"
    by (simp add: chemin_sauvegarde_def)
  from sauvegarder_ecritures [OF a b c g f, of exemple_disque] a b c e f
  show ?thesis by simp
qed

subsection \<open>The mapping invariant\<close>

text \<open>
  C4, as the code has it. Creating an empty index establishes
  \<^verbatim>\<open>len(id_mapping) == ntotal\<close>; adding vectors and rebuilding keep it, whether they
  return or raise; an addition that returns has appended the vectors and their ids in
  the same order, so that position \<open>i\<close> of the structure goes with \<open>id_mapping[i]\<close>.
  Loading only compares the two lengths and logs: after a load the invariant holds
  exactly when the load fell back to the empty index or the two files agree in length.
\<close>

theorem invariant_mapping_operations:
  "invariant_mapping (creer_index s)
   \<and> invariant_mapping (init cfg dsk chemin dimension0 True)
   \<and> (invariant_mapping s \<longrightarrow> invariant_mapping (snd (ajouter_vecteurs s v ids n)))
   \<and> (invariant_mapping s \<longrightarrow> invariant_mapping (fst (snd (rebuild_depuis_mysql env s dsk))))
   \<and> (\<forall>ix s'. index s = Some ix \<and> ajouter_vecteurs s v ids n = (Inr (), s')
        \<longrightarrow> index s' = Some (ix\<lparr>xb := xb ix @ lignes (if n then normalize_L2_lignes v else v)\<rparr>)
            \<and> id_mapping s' = id_mapping s @ ids
            \<and> length (lignes (if n then normalize_L2_lignes v else v)) = length ids)
   \<and> (invariant_mapping (charger_index dsk s) \<longleftrightarrow>
        (case dsk (chemin_index s) of
           Some (Fichier_index ix) \<Rightarrow>
             (case dsk (chemin_mapping (chemin_index s)) of
                None \<Rightarrow> xb ix = []
              | Some (Fichier_mapping ids) \<Rightarrow> length ids = length (xb ix)
              | Some _ \<Rightarrow> True)
         | _ \<Rightarrow> True))"
proof (intro conjI impI allI)
  show "invariant_mapping (creer_index s)" by (rule invariant_creer_index)
  show "invariant_mapping (init cfg dsk chemin dimension0 True)"
    by (simp add: init_def Let_def invariant_creer_index)
  show "invariant_mapping (snd (ajouter_vecteurs s v ids n))" if "invariant_mapping s"
    using that by (rule invariant_ajouter_vecteurs)
  show "invariant_mapping (fst (snd (rebuild_depuis_mysql env s dsk)))" if "invariant_mapping s"
    using that by (rule invariant_rebuild)
  show "invariant_mapping (charger_index dsk s) \<longleftrightarrow>
        (case dsk (chemin_index s) of
           Some (Fichier_index ix) \<Rightarrow>
             (case dsk (chemin_mapping (chemin_index s)) of
                None \<Rightarrow> xb ix = []
              | Some (Fichier_mapping ids) \<Rightarrow> length ids = length (xb ix)
              | Some _ \<Rightarrow> True)
         | _ \<Rightarrow> True)"
    using invariant_creer_index [of s] invariant_creer_index [of "s\<lparr>index := Some ix\<rparr>" for ix]
    by (auto simp: charger_index_def read_index_def json_load_def Let_def invariant_mapping_def ntotal_def
        faiss_ntotal_def creer_index_def IndexFlatIP_def split: option.splits fichier.splits)
next
  fix ix s'
  assume a: "index s = Some ix \<and> ajouter_vecteurs s v ids n = (Inr (), s')"
  then have aj: "ajouter_vecteurs s v ids n = (Inr (), s')" by simp
  from ajouter_vecteurs_cas [OF aj] a
  have s': "s' = s\<lparr>index := Some (ix\<lparr>xb := xb ix @ lignes (if n then normalize_L2_lignes v else v)\<rparr>),
                   id_mapping := id_mapping s @ ids\<rparr>"
    and l: "length ids = length (lignes v)" by auto
  from s' show "index s' = Some (ix\<lparr>xb := xb ix @ lignes (if n then normalize_L2_lignes v else v)\<rparr>)"
    by simp
  from s' show "id_mapping s' = id_mapping s @ ids" by simp
  from l show "length (lignes (if n then normalize_L2_lignes v else v)) = length ids"
    by (simp add: normalize_L2_lignes_def)
qed

text \<open>
  The index file holds two vectors and there is no mapping file: the loaded index has
  two vectors and no id.
\<close>

theorem invariant_mapping_counterexample:
  "ntotal (init exemple_config disque_sans_mapping None None False) = 2
   \<and> length (id_mapping (init exemple_config disque_sans_mapping None None False)) = 0"
  by (simp add: init_def exemple_config_def disque_sans_mapping_def charger_index_def
      read_index_def json_load_def chemin_mapping_def ntotal_def faiss_ntotal_def Let_def)

text \<open>An addition, a rebuild and a load on the sample index and disk.\<close>

theorem invariant_mapping_operations_witness:
  "invariant_mapping exemple_index
   \<and> invariant_mapping (snd (ajouter_vecteurs exemple_index \<lparr>shape1 = 2, lignes = [[0, 1]]\<rparr> [30] True))
   \<and> invariant_mapping (fst (snd (rebuild_depuis_mysql env_exemple exemple_index exemple_disque)))
   \<and> index exemple_index = Some \<lparr>d = 2, xb = [[1, 0], [0, 1]]\<rparr>
   \<and> ajouter_vecteurs exemple_index \<lparr>shape1 = 2, lignes = [[0, 1]]\<rparr> [30] False
       = (Inr (), exemple_index\<lparr>index := Some \<lparr>d = 2, xb = [[1, 0], [0, 1], [0, 1]]\<rparr>,
                                id_mapping := [10, 20, 30]\<rparr>)
   \<and> invariant_mapping (charger_index exemple_disque exemple_index)"
proof -
  have a: "invariant_mapping exemple_index"
    by (simp add: invariant_mapping_def exemple_index_def ntotal_def faiss_ntotal_def)
  have b: "index exemple_index = Some \<lparr>d = 2, xb = [[1, 0], [0, 1]]\<rparr>"
    by (simp add: exemple_index_def)
  have c: "ajouter_vecteurs exemple_index \<lparr>shape1 = 2, lignes = [[0, 1]]\<rparr> [30] False
       = (Inr (), exemple_index\<lparr>index := Some \<lparr>d = 2, xb = [[1, 0], [0, 1], [0, 1]]\<rparr>,
                                id_mapping := [10, 20, 30]\<rparr>)"
    by (simp add: ajouter_vecteurs_def exemple_index_def faiss_add_def)
  have e: "exemple_disque (chemin_index exemple_index)
             = Some (Fichier_index \<lparr>d = 2, xb = [[1, 0], [0, 1]]\<rparr>)"
    "exemple_disque (chemin_mapping (chemin_index exemple_index)) = Some (Fichier_mapping [10, 20])"
    by (simp_all add: exemple_disque_def exemple_index_def chemin_mapping_def)
  from invariant_mapping_operations [where s = exemple_index and dsk = exemple_disque
      and v = "\<lparr>shape1 = 2, lignes = [[0, 1]]\<rparr>" and ids = "[30]" and n = True
      and env = env_exemple]
    invariant_mapping_operations [where s = exemple_index and dsk = exemple_disque
      and v = "\<lparr>shape1 = 2, lignes = [[0, 1]]\<rparr>" and ids = "[30]" and n = False
      and env = env_exemple]
    a b c e
  show ?thesis by simp
qed

subsection \<open>The anti-thrash guard\<close>

text \<open>
  C5, as the code has it. The guard measures from \<^verbatim>\<open>dernier_rebuild_timestamp\<close>, the
  time at which the synchroniser last started a rebuild of its own: \<^verbatim>\<open>_declencher_rebuild\<close>
  records it when it launches a rebuild, and a forced rebuild records nothing. When a
  request for a rebuild comes less than the minimum interval after that time,
  \<^verbatim>\<open>_declencher_rebuild\<close> logs the skipped reason and changes nothing else: no rebuild,
  nothing kept for later. This holds for whichever of the three rules asks: a poll inside
  the window leaves the index, the files and the number of rebuilds as they were. So when
  a poll has started a rebuild and the next poll falls inside the window, only the first
  one rebuilds; for two modifications, the first poll leaves the index and the files that
  the rebuild produces, and the second leaves them as the first did.
\<close>

theorem anti_thrash:
  "(dernier_rebuild_timestamp w = Some t \<and> maintenant env - t < rebuild_min_interval_seconds w
      \<longrightarrow> (\<not> rebuild_en_cours w \<longrightarrow>
             declencher_rebuild env r w = journaliser (Log_skip_trop_tot r) w)
          \<and> index_manager (declencher_rebuild env r w) = index_manager w
          \<and> fichiers (declencher_rebuild env r w) = fichiers w
          \<and> nb_rebuilds (declencher_rebuild env r w) = nb_rebuilds w
          \<and> index_manager (verifier_triggers cfg env w) = index_manager w
          \<and> fichiers (verifier_triggers cfg env w) = fichiers w
          \<and> nb_rebuilds (verifier_triggers cfg env w) = nb_rebuilds w
          \<and> dernier_rebuild_timestamp (verifier_triggers cfg env w) = Some t)
   \<and> (nb_rebuilds (verifier_triggers cfg env1 w) \<noteq> nb_rebuilds w
       \<and> maintenant env2 - maintenant_debut env1 < rebuild_min_interval_seconds w
      \<longrightarrow> nb_rebuilds (verifier_triggers cfg env2 (verifier_triggers cfg env1 w))
            = Suc (nb_rebuilds w)
          \<and> index_manager (verifier_triggers cfg env2 (verifier_triggers cfg env1 w))
            = index_manager (verifier_triggers cfg env1 w)
          \<and> fichiers (verifier_triggers cfg env2 (verifier_triggers cfg env1 w))
            = fichiers (verifier_triggers cfg env1 w))
   \<and> (\<not> rebuild_en_cours w \<and> intervalle_ecoule env w
      \<longrightarrow> dernier_rebuild_timestamp (declencher_rebuild env r w) = Some (maintenant_debut env)
          \<and> index_manager (declencher_rebuild env r w)
            = fst (snd (rebuild_depuis_mysql env (index_manager w) (fichiers w)))
          \<and> fichiers (declencher_rebuild env r w)
            = snd (snd (rebuild_depuis_mysql env (index_manager w) (fichiers w))))
   \<and> dernier_rebuild_timestamp (snd (forcer_rebuild env w)) = dernier_rebuild_timestamp w
   \<and> (regle3_atteinte cfg env1 w t1 \<and> last_update_timestamp w = Some t0 \<and> t0 < t1
       \<and> intervalle_ecoule env1 w
       \<and> maintenant env2 - maintenant_debut env1 < rebuild_min_interval_seconds w
      \<longrightarrow> index_manager (verifier_triggers cfg env1 w)
            = fst (snd (rebuild_depuis_mysql env1 (index_manager w) (fichiers w)))
          \<and> fichiers (verifier_triggers cfg env1 w)
            = snd (snd (rebuild_depuis_mysql env1 (index_manager w) (fichiers w)))
          \<and> index_manager (verifier_triggers cfg env2 (verifier_triggers cfg env1 w))
            = index_manager (verifier_triggers cfg env1 w)
          \<and> fichiers (verifier_triggers cfg env2 (verifier_triggers cfg env1 w))
            = fichiers (verifier_triggers cfg env1 w))"
proof (intro conjI impI)

  assume a: "dernier_rebuild_timestamp w = Some t
             \<and> maintenant env - t < rebuild_min_interval_seconds w"
  then have g: "\<not> intervalle_ecoule env w" by (simp add: intervalle_ecoule_def)
  then have s: "declencher_rebuild env r w =
      journaliser (if rebuild_en_cours w then Log_skip_en_cours else Log_skip_trop_tot r) w"
    by (simp add: declencher_rebuild_saute)
  show "declencher_rebuild env r w = journaliser (Log_skip_trop_tot r) w"
    if "\<not> rebuild_en_cours w" using s that by simp
  show "index_manager (declencher_rebuild env r w) = index_manager w" by (simp add: s)
  show "fichiers (declencher_rebuild env r w) = fichiers w" by (simp add: s)
  show "nb_rebuilds (declencher_rebuild env r w) = nb_rebuilds w"
    by (simp add: s nb_rebuilds_journaliser)
  from verifier_triggers_garde [OF g, of cfg] a
  show "index_manager (verifier_triggers cfg env w) = index_manager w"
    "fichiers (verifier_triggers cfg env w) = fichiers w"
    "nb_rebuilds (verifier_triggers cfg env w) = nb_rebuilds w"
    "dernier_rebuild_timestamp (verifier_triggers cfg env w) = Some t"
    by simp_all
next
  let ?w1 = "verifier_triggers cfg env1 w"
  assume b: "nb_rebuilds ?w1 \<noteq> nb_rebuilds w
       \<and> maintenant env2 - maintenant_debut env1 < rebuild_min_interval_seconds w"
  with verifier_triggers_compte [of cfg env1 w]
  have n: "nb_rebuilds ?w1 = Suc (nb_rebuilds w)"
    and d: "dernier_rebuild_timestamp ?w1 = Some (maintenant_debut env1)"
    and m: "rebuild_min_interval_seconds ?w1 = rebuild_min_interval_seconds w"
    by auto
  from b d m have g: "\<not> intervalle_ecoule env2 ?w1" by (simp add: intervalle_ecoule_def)
  from verifier_triggers_garde [OF g, of cfg] n
  show "nb_rebuilds (verifier_triggers cfg env2 ?w1) = Suc (nb_rebuilds w)"
    "index_manager (verifier_triggers cfg env2 ?w1) = index_manager ?w1"
    "fichiers (verifier_triggers cfg env2 ?w1) = fichiers ?w1"
    by simp_all
next
  assume c: "\<not> rebuild_en_cours w \<and> intervalle_ecoule env w"
  then show "dernier_rebuild_timestamp (declencher_rebuild env r w) = Some (maintenant_debut env)"
    by (simp add: declencher_rebuild_champs)
  from c declencher_rebuild_effet [of w env r]
  show "index_manager (declencher_rebuild env r w)
            = fst (snd (rebuild_depuis_mysql env (index_manager w) (fichiers w)))"
    "fichiers (declencher_rebuild env r w)
            = snd (snd (rebuild_depuis_mysql env (index_manager w) (fichiers w)))"
    by simp_all
next
  show "dernier_rebuild_timestamp (snd (forcer_rebuild env w)) = dernier_rebuild_timestamp w"
    by (simp add: forcer_rebuild_champs)
next
  let ?w1 = "verifier_triggers cfg env1 w"
  assume e: "regle3_atteinte cfg env1 w t1 \<and> last_update_timestamp w = Some t0 \<and> t0 < t1
       \<and> intervalle_ecoule env1 w
       \<and> maintenant env2 - maintenant_debut env1 < rebuild_min_interval_seconds w"
  then have e1: "regle3_atteinte cfg env1 w t1" and e2: "last_update_timestamp w = Some t0"
    and e3: "t0 < t1" and e4: "intervalle_ecoule env1 w"
    by simp_all
  note ef = verifier_triggers_regle3_effet [OF e1 e2 e3 e4]
  from ef show "index_manager ?w1
            = fst (snd (rebuild_depuis_mysql env1 (index_manager w) (fichiers w)))"
    "fichiers ?w1 = snd (snd (rebuild_depuis_mysql env1 (index_manager w) (fichiers w)))"
    by simp_all
  from e ef have g: "\<not> intervalle_ecoule env2 ?w1" by (simp add: intervalle_ecoule_def)
  from verifier_triggers_garde [OF g, of cfg]
  show "index_manager (verifier_triggers cfg env2 ?w1) = index_manager ?w1"
    "fichiers (verifier_triggers cfg env2 ?w1) = fichiers ?w1"
    by simp_all
qed

text \<open>
  A forced rebuild, then a modification seen by a poll whose clock reads 60 seconds more:
  the forced rebuild has recorded no time, so the poll starts a rebuild, and the index
  goes from the three ids of the forced rebuild to the four of the source.
\<close>

theorem anti_thrash_counterexample:
  "fst (forcer_rebuild env_exemple monde_exemple) = Inr (Stats_succes 3 2)
   \<and> id_mapping (index_manager (snd (forcer_rebuild env_exemple monde_exemple))) = [10, 30, 40]
   \<and> dernier_rebuild_timestamp (snd (forcer_rebuild env_exemple monde_exemple)) = None
   \<and> maintenant env_suivant - maintenant env_exemple
       < rebuild_min_interval_seconds (snd (forcer_rebuild env_exemple monde_exemple))
   \<and> nb_rebuilds (snd (forcer_rebuild env_exemple monde_exemple)) = 0
   \<and> nb_rebuilds (verifier_triggers exemple_config env_suivant
                     (snd (forcer_rebuild env_exemple monde_exemple))) = 1
   \<and> id_mapping (index_manager (verifier_triggers exemple_config env_suivant
                     (snd (forcer_rebuild env_exemple monde_exemple)))) = [10, 30, 40, 50]"
proof -
  let ?w1 = "snd (forcer_rebuild env_exemple monde_exemple)"
  have m: "index_manager monde_exemple = exemple_index" "fichiers monde_exemple = exemple_disque"
    "dernier_rebuild_timestamp monde_exemple = None" "last_update_timestamp monde_exemple = Some 100"
    "\<not> rebuild_en_cours monde_exemple" "rebuild_min_interval_seconds monde_exemple = 300"
    "nb_rebuilds monde_exemple = 0"
    by (simp_all add: monde_exemple_def init_auto_sync_def nb_rebuilds_def)
  note f = forcer_rebuild_champs [of env_exemple monde_exemple, unfolded m rebuild_exemple]
  from f m(5) have r: "fst (forcer_rebuild env_exemple monde_exemple) = Inr (Stats_succes 3 2)"
    and im: "index_manager ?w1 = exemple_index\<lparr>index := Some \<lparr>d = 2, xb = [[1, 0], [1, 0], [1, 0]]\<rparr>,
                      id_mapping := [10, 30, 40]\<rparr>"
    and fi: "fichiers ?w1 = exemple_disque([''donnees'', ''index_faiss.bin'']
                          \<mapsto> Fichier_index \<lparr>d = 2, xb = [[1, 0], [1, 0], [1, 0]]\<rparr>,
                       [''donnees'', ''id_mapping.json''] \<mapsto> Fichier_mapping [10, 30, 40])"
    and dr: "dernier_rebuild_timestamp ?w1 = None"
    and lu: "last_update_timestamp ?w1 = Some 100"
    and rc: "\<not> rebuild_en_cours ?w1"
    and mi: "rebuild_min_interval_seconds ?w1 = 300"
    and nb: "nb_rebuilds ?w1 = 0"
    by simp_all
  have fx: "fichiers ?w1 (FAISS_INDEX_PATH exemple_config) \<noteq> None"
    by (simp add: fi exemple_config_def)
  have ms: "mysql_statut env_suivant
              = Inr \<lparr>uptime_row = Some 5060, dernier_changement = Inr (Some 250)\<rparr>"
    by (simp add: env_suivant_def)
  have th: "AUTO_SYNC_MYSQL_UPTIME_THRESHOLD exemple_config = 300"
    by (simp add: exemple_config_def)
  have r3: "regle3_atteinte exemple_config env_suivant ?w1 250"
    using rc fx by (simp add: regle3_atteinte_def ms th)
  have ie: "intervalle_ecoule env_suivant ?w1"
    by (simp add: intervalle_ecoule_def dr)
  have lt: "(100 :: real) < 250" by simp
  have n1: "nb_rebuilds (verifier_triggers exemple_config env_suivant ?w1) = 1"
    using nb_rebuilds_regle3 [OF r3 lu ie] nb by simp
  have di: "dimension (index_manager ?w1) = 2"
    by (simp add: im exemple_index_def)
  have mr: "mysql_rows env_suivant = Inr exemple_rows_suite"
    by (simp add: env_suivant_def)
  have ne: "exemple_rows_suite \<noteq> []"
    by (simp add: exemple_rows_suite_def)
  have eb: "encoder_batch env_suivant textes
              = Inr \<lparr>shape1 = 2, lignes = map (\<lambda>t. [1, 0]) textes\<rparr>" for textes
    by (simp add: env_suivant_def env_exemple_def encodeur_exemple_def)
  have "id_mapping (fst (snd (rebuild_depuis_mysql env_suivant (index_manager ?w1) (fichiers ?w1))))
          = map row_id exemple_rows_suite"
    by (rule rebuild_id_mapping [OF mr ne eb]) (simp_all add: di)
  with verifier_triggers_regle3_effet [OF r3 lu lt ie]
  have i1: "id_mapping (index_manager (verifier_triggers exemple_config env_suivant ?w1))
              = [10, 30, 40, 50]"
    by (simp add: exemple_rows_suite_def exemple_rows_def)
  have "maintenant env_suivant - maintenant env_exemple = 60"
    by (simp add: env_suivant_def env_exemple_def)
  then have d60: "maintenant env_suivant - maintenant env_exemple < rebuild_min_interval_seconds ?w1"
    by (simp only: mi)
  from r im dr d60 nb n1 i1 show ?thesis by simp
qed

text \<open>
  A request 100 seconds after a rebuild is dropped; and of two modifications seen 60
  seconds apart, the first starts a rebuild and the second does not.
\<close>

theorem anti_thrash_witness:
  "dernier_rebuild_timestamp monde_recent = Some 900
   \<and> maintenant env_exemple - 900 < rebuild_min_interval_seconds monde_recent
   \<and> \<not> rebuild_en_cours monde_recent
   \<and> declencher_rebuild env_exemple (Base_modifiee 200) monde_recent
       = journaliser (Log_skip_trop_tot (Base_modifiee 200)) monde_recent
   \<and> nb_rebuilds (verifier_triggers exemple_config env_exemple monde_recent) = nb_rebuilds monde_recent
   \<and> index_manager (verifier_triggers exemple_config env_exemple monde_recent)
       = index_manager monde_recent
   \<and> nb_rebuilds monde_exemple = 0
   \<and> nb_rebuilds (verifier_triggers exemple_config env_exemple monde_exemple) = 1
   \<and> maintenant env_suivant - maintenant_debut env_exemple < rebuild_min_interval_seconds monde_exemple
   \<and> nb_rebuilds (verifier_triggers exemple_config env_suivant
                     (verifier_triggers exemple_config env_exemple monde_exemple)) = 1
   \<and> id_mapping (index_manager (verifier_triggers exemple_config env_exemple monde_exemple))
       = [10, 30, 40]
   \<and> id_mapping (index_manager (verifier_triggers exemple_config env_suivant
                     (verifier_triggers exemple_config env_exemple monde_exemple)))
       = [10, 30, 40]"
proof -
  have a: "dernier_rebuild_timestamp monde_recent = Some 900"
    and b: "maintenant env_exemple - 900 < rebuild_min_interval_seconds monde_recent"
    and c: "\<not> rebuild_en_cours monde_recent"
    by (simp_all add: monde_recent_def monde_exemple_def init_auto_sync_def env_exemple_def)
  have e: "nb_rebuilds monde_exemple = 0"
    by (simp add: nb_rebuilds_def monde_exemple_def init_auto_sync_def)
  have r3: "regle3_atteinte exemple_config env_exemple monde_exemple 200"
    by (simp add: regle3_atteinte_def monde_exemple_def init_auto_sync_def env_exemple_def
        exemple_config_def exemple_disque_def)
  have i: "intervalle_ecoule env_exemple monde_exemple"
    and l: "last_update_timestamp monde_exemple = Some 100"
    by (simp_all add: intervalle_ecoule_def monde_exemple_def init_auto_sync_def)
  from nb_rebuilds_regle3 [OF r3 l i] e
  have f: "nb_rebuilds (verifier_triggers exemple_config env_exemple monde_exemple) = 1"
    by simp
  have g: "maintenant env_suivant - maintenant_debut env_exemple
             < rebuild_min_interval_seconds monde_exemple"
    by (simp add: env_suivant_def env_exemple_def monde_exemple_def init_auto_sync_def)
  have m: "index_manager monde_exemple = exemple_index" "fichiers monde_exemple = exemple_disque"
    by (simp_all add: monde_exemple_def init_auto_sync_def)
  have h5: "regle3_atteinte exemple_config env_exemple monde_exemple 200
       \<and> last_update_timestamp monde_exemple = Some 100 \<and> (100 :: real) < 200
       \<and> intervalle_ecoule env_exemple monde_exemple
       \<and> maintenant env_suivant - maintenant_debut env_exemple
           < rebuild_min_interval_seconds monde_exemple"
    using r3 l i g by simp
  note s5 = anti_thrash [where w = monde_exemple and cfg = exemple_config
      and ?env1.0 = env_exemple and ?env2.0 = env_suivant and ?t1.0 = 200 and ?t0.0 = 100,
      THEN conjunct2, THEN conjunct2, THEN conjunct2, THEN conjunct2, rule_format, OF h5,
      unfolded m rebuild_exemple]
  from s5 have k: "id_mapping (index_manager (verifier_triggers exemple_config env_exemple monde_exemple))
       = [10, 30, 40]"
    "id_mapping (index_manager (verifier_triggers exemple_config env_suivant
                     (verifier_triggers exemple_config env_exemple monde_exemple)))
       = [10, 30, 40]"
    by simp_all
  from anti_thrash [where w = monde_recent and t = 900 and env = env_exemple
      and r = "Base_modifiee 200" and cfg = exemple_config,
      THEN conjunct1, rule_format, OF conjI [OF a b]] c
  have p1: "declencher_rebuild env_exemple (Base_modifiee 200) monde_recent
       = journaliser (Log_skip_trop_tot (Base_modifiee 200)) monde_recent"
    "nb_rebuilds (verifier_triggers exemple_config env_exemple monde_recent) = nb_rebuilds monde_recent"
    "index_manager (verifier_triggers exemple_config env_exemple monde_recent)
       = index_manager monde_recent"
    by simp_all
  from f e have f': "nb_rebuilds (verifier_triggers exemple_config env_exemple monde_exemple)
       \<noteq> nb_rebuilds monde_exemple" by simp
  from anti_thrash [where w = monde_exemple and cfg = exemple_config and ?env1.0 = env_exemple
      and ?env2.0 = env_suivant, THEN conjunct2, THEN conjunct1, rule_format, OF conjI [OF f' g]] e
  have p2: "nb_rebuilds (verifier_triggers exemple_config env_suivant
                     (verifier_triggers exemple_config env_exemple monde_exemple)) = 1"
    by simp
  from a b c e f g k p1 p2 show ?thesis by blast
qed

subsection \<open>The modification rule\<close>

text \<open>
  C6. At a poll that reaches the modification rule and observes a maximum timestamp:
  if no timestamp has been recorded yet, the poll records the observed one and
  rebuilds nothing; otherwise the rule fires exactly when the observed timestamp is
  strictly greater than the recorded one. Where it fires and the anti-thrash guard lets
  it through, the rebuild runs once: the index and the files after the poll are what one
  call of \<^verbatim>\<open>rebuild_depuis_mysql\<close> makes of those before it, the start of the rebuild
  and the observed timestamp are recorded, and the number of rebuilds started goes up by
  exactly one. Where it does not fire, the poll changes nothing.
\<close>

theorem trigger_modification:
  assumes "regle3_atteinte cfg env w t"
  shows "(last_update_timestamp w = None \<longrightarrow>
            verifier_triggers cfg env w
              = journaliser (Log_init_timestamp t) (w\<lparr>last_update_timestamp := Some t\<rparr>)
            \<and> nb_rebuilds (verifier_triggers cfg env w) = nb_rebuilds w
            \<and> index_manager (verifier_triggers cfg env w) = index_manager w
            \<and> fichiers (verifier_triggers cfg env w) = fichiers w)
       \<and> (\<forall>t0. last_update_timestamp w = Some t0 \<longrightarrow>
            verifier_triggers cfg env w
              = (if t0 < t
                 then (declencher_rebuild env (Base_modifiee t)
                         (journaliser (Log_trigger3 t0 t) w))\<lparr>last_update_timestamp := Some t\<rparr>
                 else w)
            \<and> nb_trigger3 (verifier_triggers cfg env w)
              = nb_trigger3 w + (if t0 < t then 1 else 0)
            \<and> (intervalle_ecoule env w \<longrightarrow>
                 nb_rebuilds (verifier_triggers cfg env w)
                   = nb_rebuilds w + (if t0 < t then 1 else 0))
            \<and> (intervalle_ecoule env w \<and> t0 < t \<longrightarrow>
                 index_manager (verifier_triggers cfg env w)
                   = fst (snd (rebuild_depuis_mysql env (index_manager w) (fichiers w)))
                 \<and> fichiers (verifier_triggers cfg env w)
                   = snd (snd (rebuild_depuis_mysql env (index_manager w) (fichiers w)))
                 \<and> dernier_rebuild_timestamp (verifier_triggers cfg env w)
                   = Some (maintenant_debut env)
                 \<and> last_update_timestamp (verifier_triggers cfg env w) = Some t))"
proof (intro conjI impI allI)
  note r3 = verifier_triggers_regle3 [OF assms]
  from assms have nc: "\<not> rebuild_en_cours w" by (simp add: regle3_atteinte_def)
  {
    assume n: "last_update_timestamp w = None"
    from r3 n show eq: "verifier_triggers cfg env w
              = journaliser (Log_init_timestamp t) (w\<lparr>last_update_timestamp := Some t\<rparr>)"
      by simp
    show "nb_rebuilds (verifier_triggers cfg env w) = nb_rebuilds w"
      by (simp add: eq nb_rebuilds_def journaliser_def)
    show "index_manager (verifier_triggers cfg env w) = index_manager w" by (simp add: eq)
    show "fichiers (verifier_triggers cfg env w) = fichiers w" by (simp add: eq)
  }
  fix t0
  assume s: "last_update_timestamp w = Some t0"
  from r3 s show eq: "verifier_triggers cfg env w
              = (if t0 < t
                 then (declencher_rebuild env (Base_modifiee t)
                         (journaliser (Log_trigger3 t0 t) w))\<lparr>last_update_timestamp := Some t\<rparr>
                 else w)"
    by simp
  have nt: "nb_trigger3 (w'\<lparr>last_update_timestamp := x\<rparr>) = nb_trigger3 w'" for w' x
    by (simp add: nb_trigger3_def)
  show "nb_trigger3 (verifier_triggers cfg env w) = nb_trigger3 w + (if t0 < t then 1 else 0)"
    by (simp add: eq nt declencher_rebuild_champs nb_trigger3_journaliser)
  show "nb_rebuilds (verifier_triggers cfg env w) = nb_rebuilds w + (if t0 < t then 1 else 0)"
    if "intervalle_ecoule env w"
    using that by (rule nb_rebuilds_regle3 [OF assms s])
  {
    assume f: "intervalle_ecoule env w \<and> t0 < t"
    then have f1: "t0 < t" and f2: "intervalle_ecoule env w" by simp_all
    note ef = verifier_triggers_regle3_effet [OF assms s f1 f2]
    from ef show "index_manager (verifier_triggers cfg env w)
           = fst (snd (rebuild_depuis_mysql env (index_manager w) (fichiers w)))" by simp
    from ef show "fichiers (verifier_triggers cfg env w)
           = snd (snd (rebuild_depuis_mysql env (index_manager w) (fichiers w)))" by simp
    from ef show "dernier_rebuild_timestamp (verifier_triggers cfg env w)
           = Some (maintenant_debut env)" by simp
    from ef show "last_update_timestamp (verifier_triggers cfg env w) = Some t" by simp
  }
qed

text \<open>
  A first observation; a later observation of a greater timestamp, after which the index
  holds the three ids of the source in place of its two; and one of the same timestamp.
\<close>

theorem trigger_modification_witness:
  "regle3_atteinte exemple_config env_exemple monde_neuf 200
   \<and> last_update_timestamp monde_neuf = None
   \<and> verifier_triggers exemple_config env_exemple monde_neuf
       = journaliser (Log_init_timestamp 200) (monde_neuf\<lparr>last_update_timestamp := Some 200\<rparr>)
   \<and> nb_rebuilds (verifier_triggers exemple_config env_exemple monde_neuf) = nb_rebuilds monde_neuf
   \<and> regle3_atteinte exemple_config env_exemple monde_exemple 200
   \<and> last_update_timestamp monde_exemple = Some 100
   \<and> intervalle_ecoule env_exemple monde_exemple
   \<and> nb_rebuilds (verifier_triggers exemple_config env_exemple monde_exemple)
       = nb_rebuilds monde_exemple + 1
   \<and> id_mapping (index_manager monde_exemple) = [10, 20]
   \<and> id_mapping (index_manager (verifier_triggers exemple_config env_exemple monde_exemple))
       = [10, 30, 40]
   \<and> fichiers (verifier_triggers exemple_config env_exemple monde_exemple)
         [''donnees'', ''id_mapping.json'']
       = Some (Fichier_mapping [10, 30, 40])
   \<and> regle3_atteinte exemple_config env_calme (monde_exemple\<lparr>last_update_timestamp := Some 200\<rparr>) 200
   \<and> verifier_triggers exemple_config env_calme (monde_exemple\<lparr>last_update_timestamp := Some 200\<rparr>)
       = monde_exemple\<lparr>last_update_timestamp := Some 200\<rparr>"
proof -
  have a: "regle3_atteinte exemple_config env_exemple monde_neuf 200"
    "regle3_atteinte exemple_config env_exemple monde_exemple 200"
    "regle3_atteinte exemple_config env_calme (monde_exemple\<lparr>last_update_timestamp := Some 200\<rparr>) 200"
    by (simp_all add: regle3_atteinte_def monde_neuf_def monde_exemple_def init_auto_sync_def
        env_exemple_def env_calme_def exemple_config_def exemple_disque_def)
  have b: "last_update_timestamp monde_neuf = None" "last_update_timestamp monde_exemple = Some 100"
    "intervalle_ecoule env_exemple monde_exemple"
    by (simp_all add: monde_neuf_def monde_exemple_def init_auto_sync_def intervalle_ecoule_def)
  have c: "last_update_timestamp (monde_exemple\<lparr>last_update_timestamp := Some 200\<rparr>) = Some 200"
    by simp
  have m: "index_manager monde_exemple = exemple_index" "fichiers monde_exemple = exemple_disque"
    by (simp_all add: monde_exemple_def init_auto_sync_def)
  have lt: "intervalle_ecoule env_exemple monde_exemple \<and> (100 :: real) < 200"
    using b(3) by simp
  note r1 = trigger_modification [OF a(1), THEN conjunct1, rule_format, OF b(1)]
  note r2 = trigger_modification [OF a(2), THEN conjunct2, rule_format, OF b(2),
      THEN conjunct2, THEN conjunct2, THEN conjunct1, rule_format, OF b(3)]
  note r4 = trigger_modification [OF a(2), THEN conjunct2, rule_format, OF b(2),
      THEN conjunct2, THEN conjunct2, THEN conjunct2, rule_format, OF lt,
      unfolded m rebuild_exemple]
  note r3 = trigger_modification [OF a(3), THEN conjunct2, rule_format, OF c, THEN conjunct1]
  from r1 have r1': "verifier_triggers exemple_config env_exemple monde_neuf
       = journaliser (Log_init_timestamp 200) (monde_neuf\<lparr>last_update_timestamp := Some 200\<rparr>)"
    "nb_rebuilds (verifier_triggers exemple_config env_exemple monde_neuf) = nb_rebuilds monde_neuf"
    by blast+
  from r2 have r2': "nb_rebuilds (verifier_triggers exemple_config env_exemple monde_exemple)
       = nb_rebuilds monde_exemple + 1" by simp
  from r3 have r3': "verifier_triggers exemple_config env_calme
        (monde_exemple\<lparr>last_update_timestamp := Some 200\<rparr>)
       = monde_exemple\<lparr>last_update_timestamp := Some 200\<rparr>" by simp
  from r4 have r4': "id_mapping (index_manager (verifier_triggers exemple_config env_exemple monde_exemple))
       = [10, 30, 40]"
    "fichiers (verifier_triggers exemple_config env_exemple monde_exemple)
         [''donnees'', ''id_mapping.json''] = Some (Fichier_mapping [10, 30, 40])"
    by simp_all
  have i0: "id_mapping (index_manager monde_exemple) = [10, 20]"
    by (simp add: m exemple_index_def)
  from a b r1' r2' r3' r4' i0 show ?thesis by blast
qed

subsection \<open>Searching\<close>

text \<open>
  C7, as the code has it. The search works with \<^verbatim>\<open>k or FAISS_TOP_K\<close>. On an index
  with no vector, and that \<open>k\<close> not negative, it returns the one-entry result
  \<^verbatim>\<open>([[0.0]], [[-1]])\<close> and does not look at the dimension of the query. On an index
  that holds vectors, a query of another dimension than the manager's fails with the
  search exception around the dimension error, and a query of the right dimension with
  \<open>k\<close> positive gets exactly \<open>min(k, ntotal)\<close> scores and as many positions.
\<close>

theorem rechercher_resultats:
  assumes "index s = Some ix"
  shows "(faiss_ntotal ix = 0 \<and> 0 \<le> k_demande cfg k0
            \<longrightarrow> rechercher cfg s q k0 = Inr ([0], [- 1]))
       \<and> (0 < faiss_ntotal ix \<and> k_demande cfg k0 \<noteq> 0 \<and> length q \<noteq> dimension s
            \<longrightarrow> rechercher cfg s q k0
                  = Inl (Erreur_recherche (ValueError_dimension (length q) (dimension s))))
       \<and> (0 < faiss_ntotal ix \<and> 0 < k_demande cfg k0 \<and> length q = dimension s
            \<and> dimension s = d ix
            \<longrightarrow> (\<exists>ds is. rechercher cfg s q k0 = Inr (ds, is)
                   \<and> length is = min (nat (k_demande cfg k0)) (faiss_ntotal ix)
                   \<and> length ds = length is))"
proof (intro conjI impI)
  assume "faiss_ntotal ix = 0 \<and> 0 \<le> k_demande cfg k0"
  with assms show "rechercher cfg s q k0 = Inr ([0], [- 1])"
    by (simp add: rechercher_def k_demande_def Let_def min_def)
next
  assume "0 < faiss_ntotal ix \<and> k_demande cfg k0 \<noteq> 0 \<and> length q \<noteq> dimension s"
  with assms show "rechercher cfg s q k0
      = Inl (Erreur_recherche (ValueError_dimension (length q) (dimension s)))"
    by (simp add: rechercher_def k_demande_def Let_def min_def)
next
  assume a: "0 < faiss_ntotal ix \<and> 0 < k_demande cfg k0 \<and> length q = dimension s
             \<and> dimension s = d ix"
  let ?k = "min (k_demande cfg k0) (int (faiss_ntotal ix))"
  from a have pos: "0 < ?k" by simp
  have lq: "length (normalize_L2 q) = d ix"
    using a by (simp add: normalize_L2_def)
  from faiss_search_longueur [OF lq pos]
  obtain ds "is" where r: "faiss_search ix (normalize_L2 q) ?k = Inr (ds, is)"
    and l: "length ds = nat ?k" "length is = nat ?k" by blast
  from pos have "?k \<noteq> 0" by linarith
  with assms a r have "rechercher cfg s q k0 = Inr (ds, is)"
    by (simp add: rechercher_def k_demande_def [symmetric] Let_def)
  moreover have "nat ?k = min (nat (k_demande cfg k0)) (faiss_ntotal ix)"
    using a by linarith
  ultimately show "\<exists>ds is. rechercher cfg s q k0 = Inr (ds, is)
                   \<and> length is = min (nat (k_demande cfg k0)) (faiss_ntotal ix)
                   \<and> length ds = length is"
    using l by simp
qed

text \<open>
  An empty index of dimension 3 and a query of dimension 2: the search returns the
  one-entry result and raises nothing.
\<close>

theorem rechercher_counterexample:
  "ntotal index_vide = 0 \<and> dimension index_vide = 3 \<and> length [1, 2 :: real] \<noteq> dimension index_vide
   \<and> rechercher exemple_config index_vide [1, 2] (Some 3) = Inr ([0], [- 1])"
  by (simp add: index_vide_def creer_index_def IndexFlatIP_def ntotal_def faiss_ntotal_def
      rechercher_def exemple_config_def)

text \<open>Three searches: a wrong dimension, five results asked of two vectors, an empty index.\<close>

theorem rechercher_resultats_witness:
  "index exemple_index = Some \<lparr>d = 2, xb = [[1, 0], [0, 1]]\<rparr>
   \<and> k_demande exemple_config (Some 5) = 5
   \<and> faiss_ntotal \<lparr>d = 2, xb = [[1, 0], [0, 1]]\<rparr> = 2
   \<and> dimension exemple_index = 2
   \<and> rechercher exemple_config exemple_index [1, 0, 0] (Some 5)
       = Inl (Erreur_recherche (ValueError_dimension 3 2))
   \<and> (\<exists>ds is. rechercher exemple_config exemple_index [1, 0] (Some 5) = Inr (ds, is)
         \<and> length is = 2 \<and> length ds = 2)
   \<and> index index_vide = Some (IndexFlatIP 3)
   \<and> faiss_ntotal (IndexFlatIP 3) = 0
   \<and> rechercher exemple_config index_vide [1, 0, 0] None = Inr ([0], [- 1])"
proof -
  have a: "index exemple_index = Some \<lparr>d = 2, xb = [[1, 0], [0, 1]]\<rparr>"
    and b: "dimension exemple_index = 2"
    by (simp_all add: exemple_index_def)
  have c: "k_demande exemple_config (Some 5) = 5" "k_demande exemple_config None = 3"
    by (simp_all add: k_demande_def exemple_config_def)
  have e: "faiss_ntotal \<lparr>d = 2, xb = [[1, 0], [0, 1]]\<rparr> = 2" "faiss_ntotal (IndexFlatIP 3) = 0"
    by (simp_all add: faiss_ntotal_def IndexFlatIP_def)
  have f: "index index_vide = Some (IndexFlatIP 3)"
    by (simp add: index_vide_def creer_index_def)
  have g: "length [1, 0, 0 :: real] \<noteq> dimension exemple_index"
    "length [1, 0 :: real] = dimension exemple_index"
    "dimension exemple_index = d \<lparr>d = 2, xb = [[1, 0], [0, 1]]\<rparr>"
    by (simp_all add: b)
  from rechercher_resultats [OF a, of exemple_config "Some 5" "[1, 0, 0]",
      THEN conjunct2, THEN conjunct1] c e g
  have r1: "rechercher exemple_config exemple_index [1, 0, 0] (Some 5)
       = Inl (Erreur_recherche (ValueError_dimension 3 2))"
    by (simp add: b)
  from rechercher_resultats [OF a, of exemple_config "Some 5" "[1, 0]",
      THEN conjunct2, THEN conjunct2] c e g
  have "\<exists>ds is. rechercher exemple_config exemple_index [1, 0] (Some 5) = Inr (ds, is)
         \<and> length is = 2 \<and> length ds = length is"
    by simp
  then have r2: "\<exists>ds is. rechercher exemple_config exemple_index [1, 0] (Some 5) = Inr (ds, is)
         \<and> length is = 2 \<and> length ds = 2"
    by metis
  from rechercher_resultats [OF f, of exemple_config None "[1, 0, 0]", THEN conjunct1] c e
  have r3: "rechercher exemple_config index_vide [1, 0, 0] None = Inr ([0], [- 1])"
    by simp
  from a b c(1) e f r1 r2 r3 show ?thesis by blast
qed

subsection \<open>The recorded timestamp after a dropped or failed rebuild\<close>

text \<open>
  C9. When the modification rule fires, the recorded timestamp moves to the observed
  maximum whatever becomes of the rebuild: dropped by the anti-thrash guard (then nothing
  is rebuilt), failed, or done. In the polls that follow, as long as the source shows no
  greater maximum, the recorded timestamp stays and the modification rule does not fire
  again; if moreover MySQL reports no restart in those polls, they start no rebuild and
  leave the index and the files alone.
\<close>

theorem baseline_avance_sans_rebuild:
  assumes "regle3_atteinte cfg env w t" and "last_update_timestamp w = Some t0" and "t0 < t"
    and "\<forall>e \<in> set envs. pas_de_hausse t e"
  shows "last_update_timestamp (verifier_triggers cfg env w) = Some t
       \<and> (\<not> intervalle_ecoule env w \<longrightarrow>
            nb_rebuilds (verifier_triggers cfg env w) = nb_rebuilds w
            \<and> index_manager (verifier_triggers cfg env w) = index_manager w
            \<and> fichiers (verifier_triggers cfg env w) = fichiers w)
       \<and> last_update_timestamp (boucle_surveillance cfg envs (verifier_triggers cfg env w)) = Some t
       \<and> nb_trigger3 (boucle_surveillance cfg envs (verifier_triggers cfg env w))
           = nb_trigger3 (verifier_triggers cfg env w)
       \<and> ((\<forall>e \<in> set envs. sans_redemarrage cfg e) \<longrightarrow>
            nb_rebuilds (boucle_surveillance cfg envs (verifier_triggers cfg env w))
              = nb_rebuilds (verifier_triggers cfg env w)
            \<and> index_manager (boucle_surveillance cfg envs (verifier_triggers cfg env w))
              = index_manager (verifier_triggers cfg env w)
            \<and> fichiers (boucle_surveillance cfg envs (verifier_triggers cfg env w))
              = fichiers (verifier_triggers cfg env w))"
proof -
  let ?w1 = "verifier_triggers cfg env w"
  have eq: "?w1 = (declencher_rebuild env (Base_modifiee t)
                     (journaliser (Log_trigger3 t0 t) w))\<lparr>last_update_timestamp := Some t\<rparr>"
    using verifier_triggers_regle3 [OF assms(1)] assms(2,3) by simp
  then have lu: "last_update_timestamp ?w1 = Some t" by simp
  from assms(1) have "fichiers w (FAISS_INDEX_PATH cfg) \<noteq> None"
    by (simp add: regle3_atteinte_def)
  then have "fichiers (declencher_rebuild env (Base_modifiee t)
      (journaliser (Log_trigger3 t0 t) w)) (FAISS_INDEX_PATH cfg) \<noteq> None"
    by (intro declencher_garde_fichiers) simp
  with eq have f: "fichiers ?w1 (FAISS_INDEX_PATH cfg) \<noteq> None" by simp
  have g: "nb_rebuilds ?w1 = nb_rebuilds w \<and> index_manager ?w1 = index_manager w
           \<and> fichiers ?w1 = fichiers w" if "\<not> intervalle_ecoule env w"
    using verifier_triggers_garde [OF that, of cfg] by simp
  note b1 = boucle_sans_hausse [OF lu assms(4), of cfg]
  have b2: "nb_rebuilds (boucle_surveillance cfg envs ?w1) = nb_rebuilds ?w1
            \<and> index_manager (boucle_surveillance cfg envs ?w1) = index_manager ?w1
            \<and> fichiers (boucle_surveillance cfg envs ?w1) = fichiers ?w1"
    if "\<forall>e \<in> set envs. sans_redemarrage cfg e"
    using boucle_au_repos [OF lu f, of envs] that assms(4) by simp
  from lu g b1 b2 show ?thesis by blast
qed

text \<open>
  A modification seen 100 seconds after a rebuild, followed by two polls that see the
  same timestamp.
\<close>

theorem baseline_avance_sans_rebuild_witness:
  "regle3_atteinte exemple_config env_exemple monde_recent 200
   \<and> last_update_timestamp monde_recent = Some 100
   \<and> (100 :: real) < 200
   \<and> pas_de_hausse 200 env_calme
   \<and> sans_redemarrage exemple_config env_calme
   \<and> \<not> intervalle_ecoule env_exemple monde_recent
   \<and> last_update_timestamp (verifier_triggers exemple_config env_exemple monde_recent) = Some 200
   \<and> nb_rebuilds (verifier_triggers exemple_config env_exemple monde_recent) = nb_rebuilds monde_recent
   \<and> nb_rebuilds (boucle_surveillance exemple_config [env_calme, env_calme]
                     (verifier_triggers exemple_config env_exemple monde_recent))
       = nb_rebuilds monde_recent
   \<and> index_manager (boucle_surveillance exemple_config [env_calme, env_calme]
                     (verifier_triggers exemple_config env_exemple monde_recent))
       = index_manager monde_recent"
proof -
  have a: "regle3_atteinte exemple_config env_exemple monde_recent 200"
    by (simp add: regle3_atteinte_def monde_recent_def monde_exemple_def init_auto_sync_def
        env_exemple_def exemple_config_def exemple_disque_def)
  have b: "last_update_timestamp monde_recent = Some 100"
    and c: "\<not> intervalle_ecoule env_exemple monde_recent"
    by (simp_all add: monde_recent_def monde_exemple_def init_auto_sync_def intervalle_ecoule_def
        env_exemple_def)
  have e: "pas_de_hausse 200 env_calme" "sans_redemarrage exemple_config env_calme"
    by (simp_all add: pas_de_hausse_def sans_redemarrage_def env_calme_def env_exemple_def
        exemple_config_def)
  then have f: "\<forall>e \<in> set [env_calme, env_calme]. pas_de_hausse 200 e" by simp
  have g: "(100 :: real) < 200" by simp
  from baseline_avance_sans_rebuild [OF a b g f] a b c e
  show ?thesis by simp
qed

subsection \<open>A rebuild from an empty source\<close>

text \<open>
  C10. When the source returns no active row, \<^verbatim>\<open>rebuild_depuis_mysql\<close> returns the
  statistics of a refusal (\<^verbatim>\<open>success\<close> false) without raising, and the index, its
  mapping and the files are exactly what they were; so it is for a forced rebuild and
  for one the synchroniser starts.
\<close>

theorem rebuild_source_vide:
  assumes "mysql_rows env = Inr []"
  shows "rebuild_depuis_mysql env s dsk = (Inr (Stats_echec ''Base de donnees vide''), s, dsk)
         \<and> \<not> success (Stats_echec ''Base de donnees vide'')
         \<and> fst (forcer_rebuild env w) = Inr (Stats_echec ''Base de donnees vide'')
         \<and> index_manager (snd (forcer_rebuild env w)) = index_manager w
         \<and> fichiers (snd (forcer_rebuild env w)) = fichiers w
         \<and> index_manager (declencher_rebuild env r w) = index_manager w
         \<and> fichiers (declencher_rebuild env r w) = fichiers w"
proof -
  have vide: "rebuild_depuis_mysql env s' dsk' = (Inr (Stats_echec ''Base de donnees vide''), s', dsk')"
    for s' dsk'
    using assms by (simp add: rebuild_depuis_mysql_def)
  show ?thesis
    by (simp add: vide success_def forcer_rebuild_def declencher_rebuild_def journaliser_def)
qed

text \<open>A rebuild, forced and triggered, with a source that has no row.\<close>

theorem rebuild_source_vide_witness:
  "mysql_rows env_source_vide = Inr []
   \<and> rebuild_depuis_mysql env_source_vide exemple_index exemple_disque
       = (Inr (Stats_echec ''Base de donnees vide''), exemple_index, exemple_disque)
   \<and> index_manager (snd (forcer_rebuild env_source_vide monde_exemple)) = index_manager monde_exemple
   \<and> fichiers (declencher_rebuild env_source_vide Index_n_existe_pas monde_exemple)
       = fichiers monde_exemple"
proof -
  have h: "mysql_rows env_source_vide = Inr []"
    by (simp add: env_source_vide_def)
  from rebuild_source_vide [OF h, of exemple_index exemple_disque monde_exemple Index_n_existe_pas] h
  show ?thesis by simp
qed

end
